theory Spec2Isabelle
  imports Complex_Main "HOL-Library.Word"
begin

unbundle bit_operations_syntax

section \<open>Locations, status codes and the CUDA environment\<close>

text \<open>
  Modelled from the spec: the declaration of \<^verbatim>\<open>util::Location\<close> and of its constants
  is not among the sources. The spec names the locations host, device and both. The
  source tests membership with \<^verbatim>\<open>target & util::DEVICE\<close> and exact equality with
  \<^verbatim>\<open>target == util::DEVICE\<close>, so a location is an unsigned bit mask; host and device
  are taken as distinct single-bit flags, with \<^verbatim>\<open>LOCATION_ALL\<close> covering both.
\<close>

type_synonym Location = "32 word"

definition LOCATION_NONE :: Location where "LOCATION_NONE = 0"
definition HOST :: Location where "HOST = 1"
definition DEVICE :: Location where "DEVICE = 2"
definition LOCATION_ALL :: Location where "LOCATION_ALL = 15"

text \<open>
  Modelled from the spec: \<^verbatim>\<open>cudaError_t\<close> is the runtime's type; its failures here are
  the ones of the spec's error taxonomy. \<open>IllegalAddress\<close> is not a status the source
  returns: it marks the places where the source dereferences a null pointer or reads
  or writes outside an allocation, which C++ leaves undefined; the model stops there.
\<close>

datatype cudaError_t =
    cudaSuccess
  | AllocationFailure
  | DeviceSelectionFailure
  | PartitionFailure
  | TransferFailure
  | IllegalAddress

text \<open>
  Modelled from the spec: the CUDA runtime is outside the sources. Per the spec a device
  can be unavailable, an allocation can fail and a transfer can fail to complete; each
  fallible primitive asks a fixed oracle whether it succeeds.
\<close>

record cuda_env =
  SetDevice_ok :: "int \<Rightarrow> bool"
  host_alloc_ok :: "nat \<Rightarrow> bool"
  device_alloc_ok :: "nat \<Rightarrow> bool"
  memcpy_ok :: bool
  DeviceSynchronize_ok :: bool

text \<open>
  Modelled from the spec: the macro \<^verbatim>\<open>GUARD_CU\<close> is declared outside the sources. Per
  the spec a failure is propagated immediately: \<^verbatim>\<open>GUARD_CU(call)\<close> stores the status of
  the call in \<^verbatim>\<open>retval\<close> and returns it at once when it is not \<^verbatim>\<open>cudaSuccess\<close>.

  A mutating method is a function from the object to the status and the object as the
  call leaves it (also when it fails: the object is mutated in place). A run of guarded
  statements is the list of its steps.
\<close>

fun GUARD_CU_seq :: "('s \<Rightarrow> cudaError_t \<times> 's) list \<Rightarrow> 's \<Rightarrow> cudaError_t \<times> 's" where
  "GUARD_CU_seq [] s = (cudaSuccess, s)"
| "GUARD_CU_seq (f # fs) s =
     (case f s of (retval, s') \<Rightarrow>
        if retval = cudaSuccess then GUARD_CU_seq fs s' else (retval, s'))"

text \<open>A statement under \<^verbatim>\<open>if (c)\<close> with no else branch.\<close>

definition if_then :: "bool \<Rightarrow> ('s \<Rightarrow> cudaError_t \<times> 's) \<Rightarrow> 's \<Rightarrow> cudaError_t \<times> 's" where
  "if_then c f s = (if c then f s else (cudaSuccess, s))"

text \<open>
  Modelled from the spec: \<^verbatim>\<open>util::SetDevice(idx)\<close> is outside the sources. Selecting a
  device that is unavailable is a DeviceSelectionFailure. The selected device is
  ambient state of the runtime and is not part of any object; it is not modelled.
\<close>

definition SetDevice :: "cuda_env \<Rightarrow> int \<Rightarrow> 's \<Rightarrow> cudaError_t \<times> 's" where
  "SetDevice env idx s =
     (if SetDevice_ok env idx then (cudaSuccess, s) else (DeviceSelectionFailure, s))"

section \<open>Array1D\<close>

text \<open>
  Modelled from the spec: \<^verbatim>\<open>util::Array1D\<close> is declared outside the sources. An array
  has a host side and a device side; each is a null pointer (\<open>None\<close>) or an
  allocation, a list of cells. A cell is \<open>None\<close> until it is first written: freshly
  allocated memory has no known contents.

  The array owns its storage: the two sides are held by value.
\<close>

record 'a Array1D =
  h_pointer :: "'a option list option"
  d_pointer :: "'a option list option"

definition Array1D_empty :: "'a Array1D" where
  "Array1D_empty = \<lparr>h_pointer = None, d_pointer = None\<rparr>"

text \<open>
  Modelled from the spec: \<^verbatim>\<open>GetPointer(location)\<close>, for a single location, is the pointer
  of that side.
\<close>

definition GetPointer :: "Location \<Rightarrow> 'a Array1D \<Rightarrow> 'a option list option" where
  "GetPointer loc a =
     (if loc = HOST then h_pointer a else if loc = DEVICE then d_pointer a else None)"

text \<open>
  Modelled from the spec: \<^verbatim>\<open>Release(target)\<close> frees the array at the requested
  locations; a released side reads back as empty (a null pointer); a side that is
  already free is skipped; the call always succeeds.
\<close>

definition Array1D_Release :: "Location \<Rightarrow> 'a Array1D \<Rightarrow> cudaError_t \<times> 'a Array1D" where
  "Array1D_Release target a =
     (cudaSuccess,
      \<lparr>h_pointer = (if target AND HOST \<noteq> 0 then None else h_pointer a),
       d_pointer = (if target AND DEVICE \<noteq> 0 then None else d_pointer a)\<rparr>)"

text \<open>
  Modelled from the spec: \<^verbatim>\<open>Allocate(n, target)\<close> allocates the array at the requested
  locations, sized to \<open>n\<close>, the host side first. An allocation can fail (the device is
  out of memory); a failed allocation leaves the side null, and what was allocated
  before the failure remains allocated.
\<close>

definition alloc_host :: "cuda_env \<Rightarrow> nat \<Rightarrow> 'a Array1D \<Rightarrow> cudaError_t \<times> 'a Array1D" where
  "alloc_host env n a =
     (if host_alloc_ok env n then (cudaSuccess, a\<lparr>h_pointer := Some (replicate n None)\<rparr>)
      else (AllocationFailure, a\<lparr>h_pointer := None\<rparr>))"

definition alloc_device :: "cuda_env \<Rightarrow> nat \<Rightarrow> 'a Array1D \<Rightarrow> cudaError_t \<times> 'a Array1D" where
  "alloc_device env n a =
     (if device_alloc_ok env n then (cudaSuccess, a\<lparr>d_pointer := Some (replicate n None)\<rparr>)
      else (AllocationFailure, a\<lparr>d_pointer := None\<rparr>))"

definition Array1D_Allocate ::
  "cuda_env \<Rightarrow> nat \<Rightarrow> Location \<Rightarrow> 'a Array1D \<Rightarrow> cudaError_t \<times> 'a Array1D" where
  "Array1D_Allocate env n target =
     GUARD_CU_seq
       [if_then (target AND HOST \<noteq> 0) (alloc_host env n),
        if_then (target AND DEVICE \<noteq> 0) (alloc_device env n)]"

text \<open>
  Modelled from the spec: \<^verbatim>\<open>EnsureSize_(n, target)\<close> (the name cannot end in an
  underscore here) ensures that the capacity at the requested locations is at least
  \<open>n\<close>: a side that already holds \<open>n\<close> cells is left as it is, a smaller or null side
  is allocated anew with \<open>n\<close> cells. It never shrinks.
\<close>

definition holds :: "nat \<Rightarrow> 'a option list option \<Rightarrow> bool" where
  "holds n p = (case p of None \<Rightarrow> False | Some xs \<Rightarrow> n \<le> length xs)"

definition Array1D_EnsureSize ::
  "cuda_env \<Rightarrow> nat \<Rightarrow> Location \<Rightarrow> 'a Array1D \<Rightarrow> cudaError_t \<times> 'a Array1D" where
  "Array1D_EnsureSize env n target =
     GUARD_CU_seq
       [\<lambda>a. if_then (target AND HOST \<noteq> 0 \<and> \<not> holds n (h_pointer a)) (alloc_host env n) a,
        \<lambda>a. if_then (target AND DEVICE \<noteq> 0 \<and> \<not> holds n (d_pointer a)) (alloc_device env n) a]"

text \<open>
  Modelled from the spec: \<^verbatim>\<open>ForEach(op, n, target)\<close> applies the operation to the first
  \<open>n\<close> cells at the requested locations, the host side first. A null side, or one
  shorter than \<open>n\<close>, cannot be walked, unless \<open>n = 0\<close>.
\<close>

definition apply_first :: "('a option \<Rightarrow> 'a) \<Rightarrow> nat \<Rightarrow> 'a option list \<Rightarrow> 'a option list" where
  "apply_first op n xs = map (\<lambda>x. Some (op x)) (take n xs) @ drop n xs"

definition for_each_host ::
  "('a option \<Rightarrow> 'a) \<Rightarrow> nat \<Rightarrow> 'a Array1D \<Rightarrow> cudaError_t \<times> 'a Array1D" where
  "for_each_host op n a =
     (case h_pointer a of
        None \<Rightarrow> if n = 0 then (cudaSuccess, a) else (IllegalAddress, a)
      | Some xs \<Rightarrow>
          if n \<le> length xs then (cudaSuccess, a\<lparr>h_pointer := Some (apply_first op n xs)\<rparr>)
          else (IllegalAddress, a))"

definition for_each_device ::
  "('a option \<Rightarrow> 'a) \<Rightarrow> nat \<Rightarrow> 'a Array1D \<Rightarrow> cudaError_t \<times> 'a Array1D" where
  "for_each_device op n a =
     (case d_pointer a of
        None \<Rightarrow> if n = 0 then (cudaSuccess, a) else (IllegalAddress, a)
      | Some xs \<Rightarrow>
          if n \<le> length xs then (cudaSuccess, a\<lparr>d_pointer := Some (apply_first op n xs)\<rparr>)
          else (IllegalAddress, a))"

definition Array1D_ForEach ::
  "('a option \<Rightarrow> 'a) \<Rightarrow> nat \<Rightarrow> Location \<Rightarrow> 'a Array1D \<Rightarrow> cudaError_t \<times> 'a Array1D" where
  "Array1D_ForEach op n target =
     GUARD_CU_seq
       [if_then (target AND HOST \<noteq> 0) (for_each_host op n),
        if_then (target AND DEVICE \<noteq> 0) (for_each_device op n)]"

text \<open>
  Modelled from the spec: \<^verbatim>\<open>ForEach(buffer, op, n, HOST)\<close> walks the array's host side
  and a second buffer together, an element-wise copy that materialises the array in
  the buffer: the operation reads the array's cell and writes the buffer's cell, for
  the first \<open>n\<close> indices. The source uses it with the host location only.
\<close>

definition Array1D_ForEach2 ::
  "'b option list \<Rightarrow> ('a option \<Rightarrow> 'b option \<Rightarrow> 'b option) \<Rightarrow> nat \<Rightarrow> 'a Array1D \<Rightarrow>
     cudaError_t \<times> 'b option list" where
  "Array1D_ForEach2 buf op n a =
     (case h_pointer a of
        None \<Rightarrow> if n = 0 then (cudaSuccess, buf) else (IllegalAddress, buf)
      | Some xs \<Rightarrow>
          if n \<le> length xs \<and> n \<le> length buf
          then (cudaSuccess, map2 op (take n xs) (take n buf) @ drop n buf)
          else (IllegalAddress, buf))"

text \<open>
  Modelled from the spec: \<^verbatim>\<open>SetPointer(ptr, n, HOST)\<close> makes the first \<open>n\<close> cells of
  the caller's buffer the host side of the array. The array then aliases the buffer:
  \<open>write_back\<close> is the buffer as the array's host side leaves it.
\<close>

definition Array1D_SetPointer ::
  "'a option list \<Rightarrow> nat \<Rightarrow> 'a Array1D \<Rightarrow> cudaError_t \<times> 'a Array1D" where
  "Array1D_SetPointer buf n a = (cudaSuccess, a\<lparr>h_pointer := Some (take n buf)\<rparr>)"

definition write_back :: "'a Array1D \<Rightarrow> nat \<Rightarrow> 'a option list \<Rightarrow> 'a option list" where
  "write_back a n buf = (case h_pointer a of None \<Rightarrow> buf | Some v \<Rightarrow> v @ drop n buf)"

text \<open>
  Modelled from the spec: \<^verbatim>\<open>Move(source, target)\<close> transfers the contents of the source
  side to the other side: its cells are copied over the first cells of the destination,
  which is allocated first when it is null. A null source has nothing to transfer. A
  transfer can fail; a destination shorter than the source cannot take it.
\<close>

definition copy_cells :: "'a option list \<Rightarrow> 'a option list \<Rightarrow> 'a option list" where
  "copy_cells src dst = src @ drop (length src) dst"

definition move_to_device :: "cuda_env \<Rightarrow> 'a Array1D \<Rightarrow> cudaError_t \<times> 'a Array1D" where
  "move_to_device env a =
     (case h_pointer a of
        None \<Rightarrow> (cudaSuccess, a)
      | Some xs \<Rightarrow>
          (case d_pointer a of
             None \<Rightarrow>
               if \<not> device_alloc_ok env (length xs) then (AllocationFailure, a)
               else if \<not> memcpy_ok env
                 then (TransferFailure, a\<lparr>d_pointer := Some (replicate (length xs) None)\<rparr>)
               else (cudaSuccess, a\<lparr>d_pointer := Some xs\<rparr>)
           | Some ys \<Rightarrow>
               if length ys < length xs then (IllegalAddress, a)
               else if \<not> memcpy_ok env then (TransferFailure, a)
               else (cudaSuccess, a\<lparr>d_pointer := Some (copy_cells xs ys)\<rparr>)))"

definition move_to_host :: "cuda_env \<Rightarrow> 'a Array1D \<Rightarrow> cudaError_t \<times> 'a Array1D" where
  "move_to_host env a =
     (case d_pointer a of
        None \<Rightarrow> (cudaSuccess, a)
      | Some xs \<Rightarrow>
          (case h_pointer a of
             None \<Rightarrow>
               if \<not> host_alloc_ok env (length xs) then (AllocationFailure, a)
               else if \<not> memcpy_ok env
                 then (TransferFailure, a\<lparr>h_pointer := Some (replicate (length xs) None)\<rparr>)
               else (cudaSuccess, a\<lparr>h_pointer := Some xs\<rparr>)
           | Some ys \<Rightarrow>
               if length ys < length xs then (IllegalAddress, a)
               else if \<not> memcpy_ok env then (TransferFailure, a)
               else (cudaSuccess, a\<lparr>h_pointer := Some (copy_cells xs ys)\<rparr>)))"

definition Array1D_Move ::
  "cuda_env \<Rightarrow> Location \<Rightarrow> Location \<Rightarrow> 'a Array1D \<Rightarrow> cudaError_t \<times> 'a Array1D" where
  "Array1D_Move env source target a =
     (if source = HOST \<and> target AND DEVICE \<noteq> 0 then move_to_device env a
      else if source = DEVICE \<and> target AND HOST \<noteq> 0 then move_to_host env a
      else (cudaSuccess, a))"

section \<open>The graph\<close>

text \<open>
  Of \<^verbatim>\<open>GraphT\<close> the sources read the vertex count \<^verbatim>\<open>nodes\<close> and, in the multi-GPU
  part of \<^verbatim>\<open>Extract\<close> that is commented out, the partitioner's \<^verbatim>\<open>partition_table\<close>
  (vertex to device) and \<^verbatim>\<open>convertion_table\<close> (vertex to local index).
\<close>

record graph =
  nodes :: nat
  partition_table :: "nat list"
  convertion_table :: "nat list"

section \<open>Problem::DataSlice\<close>

text \<open>
  \<^verbatim>\<open>ValueT\<close> is \<open>real\<close>: the sources only store the constants 0 and 1 and copy values.
  Of the base class \<^verbatim>\<open>BaseDataSlice\<close> the sources read \<^verbatim>\<open>gpu_idx\<close> and \<^verbatim>\<open>sub_graph\<close>
  (a pointer, null until \<^verbatim>\<open>Init\<close>). \<^verbatim>\<open>maxIter\<close> is declared and never assigned.
\<close>

record DataSlice =
  gpu_idx :: int
  sub_graph :: "graph option"
  degrees :: "real Array1D"
  visited :: "int Array1D"
  hrank_curr :: "real Array1D"
  arank_curr :: "real Array1D"
  hrank_next :: "real Array1D"
  arank_next :: "real Array1D"
  in_degrees :: "real Array1D"
  out_degrees :: "real Array1D"
  maxIter :: "nat option"

text \<open>
  The default constructor: every array is named and empty. The constructor of the base
  class is outside the sources; the slice starts on device 0 with no graph.
\<close>

definition DataSlice_new :: DataSlice where
  "DataSlice_new =
     \<lparr>gpu_idx = 0, sub_graph = None,
      degrees = Array1D_empty, visited = Array1D_empty,
      hrank_curr = Array1D_empty, arank_curr = Array1D_empty,
      hrank_next = Array1D_empty, arank_next = Array1D_empty,
      in_degrees = Array1D_empty, out_degrees = Array1D_empty,
      maxIter = None\<rparr>"

text \<open>A method call on a member array: the status is the call's, the member is updated.\<close>

definition on_degrees ::
  "(real Array1D \<Rightarrow> cudaError_t \<times> real Array1D) \<Rightarrow> DataSlice \<Rightarrow> cudaError_t \<times> DataSlice" where
  "on_degrees f ds = (case f (degrees ds) of (r, a) \<Rightarrow> (r, ds\<lparr>degrees := a\<rparr>))"

definition on_visited ::
  "(int Array1D \<Rightarrow> cudaError_t \<times> int Array1D) \<Rightarrow> DataSlice \<Rightarrow> cudaError_t \<times> DataSlice" where
  "on_visited f ds = (case f (visited ds) of (r, a) \<Rightarrow> (r, ds\<lparr>visited := a\<rparr>))"

definition on_hrank_curr ::
  "(real Array1D \<Rightarrow> cudaError_t \<times> real Array1D) \<Rightarrow> DataSlice \<Rightarrow> cudaError_t \<times> DataSlice" where
  "on_hrank_curr f ds = (case f (hrank_curr ds) of (r, a) \<Rightarrow> (r, ds\<lparr>hrank_curr := a\<rparr>))"

definition on_arank_curr ::
  "(real Array1D \<Rightarrow> cudaError_t \<times> real Array1D) \<Rightarrow> DataSlice \<Rightarrow> cudaError_t \<times> DataSlice" where
  "on_arank_curr f ds = (case f (arank_curr ds) of (r, a) \<Rightarrow> (r, ds\<lparr>arank_curr := a\<rparr>))"

definition on_hrank_next ::
  "(real Array1D \<Rightarrow> cudaError_t \<times> real Array1D) \<Rightarrow> DataSlice \<Rightarrow> cudaError_t \<times> DataSlice" where
  "on_hrank_next f ds = (case f (hrank_next ds) of (r, a) \<Rightarrow> (r, ds\<lparr>hrank_next := a\<rparr>))"

definition on_arank_next ::
  "(real Array1D \<Rightarrow> cudaError_t \<times> real Array1D) \<Rightarrow> DataSlice \<Rightarrow> cudaError_t \<times> DataSlice" where
  "on_arank_next f ds = (case f (arank_next ds) of (r, a) \<Rightarrow> (r, ds\<lparr>arank_next := a\<rparr>))"

definition on_in_degrees ::
  "(real Array1D \<Rightarrow> cudaError_t \<times> real Array1D) \<Rightarrow> DataSlice \<Rightarrow> cudaError_t \<times> DataSlice" where
  "on_in_degrees f ds = (case f (in_degrees ds) of (r, a) \<Rightarrow> (r, ds\<lparr>in_degrees := a\<rparr>))"

definition on_out_degrees ::
  "(real Array1D \<Rightarrow> cudaError_t \<times> real Array1D) \<Rightarrow> DataSlice \<Rightarrow> cudaError_t \<times> DataSlice" where
  "on_out_degrees f ds = (case f (out_degrees ds) of (r, a) \<Rightarrow> (r, ds\<lparr>out_degrees := a\<rparr>))"

text \<open>
  Modelled from the spec: \<^verbatim>\<open>BaseDataSlice::Init\<close> is outside the sources. It binds the
  slice to its device and to its partition (the device count and the flag are kept by
  the base class and read by nothing here).
\<close>

definition BaseDataSlice_Init ::
  "graph \<Rightarrow> int \<Rightarrow> int \<Rightarrow> Location \<Rightarrow> nat \<Rightarrow> DataSlice \<Rightarrow> cudaError_t \<times> DataSlice" where
  "BaseDataSlice_Init g num_gpus_arg idx target flag ds =
     (cudaSuccess, ds\<lparr>gpu_idx := idx, sub_graph := Some g\<rparr>)"

text \<open>
  Modelled from the spec: \<^verbatim>\<open>BaseDataSlice::Release\<close> is outside the sources. It frees
  resources of the base class, none of which is modelled, and succeeds.
\<close>

definition BaseDataSlice_Release :: "Location \<Rightarrow> DataSlice \<Rightarrow> cudaError_t \<times> DataSlice" where
  "BaseDataSlice_Release target ds = (cudaSuccess, ds)"

text \<open>
  Modelled from the spec: \<^verbatim>\<open>CsrT::Move\<close> is outside the sources.
  \<^verbatim>\<open>sub_graph.CsrT::Move(HOST, target, stream)\<close> migrates the partition's topology to
  the device. The topology is not part of the slice; the transfer can fail.
\<close>

definition CsrT_Move :: "cuda_env \<Rightarrow> Location \<Rightarrow> Location \<Rightarrow> 's \<Rightarrow> cudaError_t \<times> 's" where
  "CsrT_Move env source target s =
     (if memcpy_ok env then (cudaSuccess, s) else (TransferFailure, s))"

text \<open>\<^verbatim>\<open>DataSlice::Release(target)\<close>, lines 117 to 136.\<close>

definition DataSlice_Release ::
  "cuda_env \<Rightarrow> Location \<Rightarrow> DataSlice \<Rightarrow> cudaError_t \<times> DataSlice" where
  "DataSlice_Release env target =
     GUARD_CU_seq
       [\<lambda>ds. if_then (target AND DEVICE \<noteq> 0) (SetDevice env (gpu_idx ds)) ds,
        on_degrees (Array1D_Release target),
        on_visited (Array1D_Release target),
        on_hrank_curr (Array1D_Release target),
        on_arank_curr (Array1D_Release target),
        on_hrank_next (Array1D_Release target),
        on_arank_next (Array1D_Release target),
        on_in_degrees (Array1D_Release target),
        on_out_degrees (Array1D_Release target),
        BaseDataSlice_Release target]"

text \<open>
  The destructor, line 110: \<^verbatim>\<open>~DataSlice() { Release(); }\<close>. \<open>Release\<close> runs with its
  default target, every location; a destructor returns nothing, so the status of the
  call is dropped.
\<close>

definition DataSlice_destructor :: "cuda_env \<Rightarrow> DataSlice \<Rightarrow> DataSlice" where
  "DataSlice_destructor env ds = snd (DataSlice_Release env LOCATION_ALL ds)"

text \<open>\<^verbatim>\<open>DataSlice::Init(sub_graph, num_gpus, gpu_idx, target, flag)\<close>, lines 146 to 173.\<close>

definition DataSlice_Init ::
  "cuda_env \<Rightarrow> graph \<Rightarrow> int \<Rightarrow> int \<Rightarrow> Location \<Rightarrow> nat \<Rightarrow> DataSlice \<Rightarrow>
     cudaError_t \<times> DataSlice" where
  "DataSlice_Init env g num_gpus_arg idx target flag =
     GUARD_CU_seq
       [BaseDataSlice_Init g num_gpus_arg idx target flag,
        on_degrees (Array1D_Allocate env (nodes g) target),
        on_visited (Array1D_Allocate env (nodes g) target),
        on_hrank_curr (Array1D_Allocate env (nodes g) target),
        on_arank_curr (Array1D_Allocate env (nodes g) target),
        on_hrank_next (Array1D_Allocate env (nodes g) target),
        on_arank_next (Array1D_Allocate env (nodes g) target),
        on_in_degrees (Array1D_Allocate env (nodes g) target),
        on_out_degrees (Array1D_Allocate env (nodes g) target),
        if_then (target AND DEVICE \<noteq> 0) (CsrT_Move env HOST target)]"

text \<open>
  \<^verbatim>\<open>DataSlice::Reset(target)\<close>, lines 180 to 233. It reads \<^verbatim>\<open>this->sub_graph->nodes\<close>
  first: a slice that was never initialised has no graph to read.
\<close>

definition Reset_steps ::
  "cuda_env \<Rightarrow> nat \<Rightarrow> Location \<Rightarrow> (DataSlice \<Rightarrow> cudaError_t \<times> DataSlice) list" where
  "Reset_steps env n target =
       [on_degrees (Array1D_EnsureSize env n target),
        on_visited (Array1D_EnsureSize env n target),
        on_hrank_curr (Array1D_EnsureSize env n target),
        on_arank_curr (Array1D_EnsureSize env n target),
        on_hrank_next (Array1D_EnsureSize env n target),
        on_arank_next (Array1D_EnsureSize env n target),
        on_in_degrees (Array1D_EnsureSize env n target),
        on_out_degrees (Array1D_EnsureSize env n target),
        on_degrees (Array1D_ForEach (\<lambda>x. 0) n target),
        on_visited (Array1D_ForEach (\<lambda>x. 0) n target),
        on_hrank_curr (Array1D_ForEach (\<lambda>x. 1) n target),
        on_arank_curr (Array1D_ForEach (\<lambda>x. 1) n target),
        on_hrank_next (Array1D_ForEach (\<lambda>x. 0) n target),
        on_arank_next (Array1D_ForEach (\<lambda>x. 0) n target),
        on_in_degrees (Array1D_ForEach (\<lambda>x. 0) n target),
        on_out_degrees (Array1D_ForEach (\<lambda>x. 0) n target)]"

definition DataSlice_Reset ::
  "cuda_env \<Rightarrow> Location \<Rightarrow> DataSlice \<Rightarrow> cudaError_t \<times> DataSlice" where
  "DataSlice_Reset env target ds =
     (case sub_graph ds of
        None \<Rightarrow> (IllegalAddress, ds)
      | Some g \<Rightarrow> GUARD_CU_seq (Reset_steps env (nodes g) target) ds)"

section \<open>Problem\<close>

text \<open>
  Of the base class \<^verbatim>\<open>ProblemBase\<close> the sources read \<^verbatim>\<open>num_gpus\<close>, the array \<^verbatim>\<open>gpu_idx\<close>
  (here \<open>problem_gpu_idx\<close>), \<^verbatim>\<open>org_graph\<close> (a pointer, null until \<^verbatim>\<open>Init\<close>),
  \<^verbatim>\<open>sub_graphs\<close> and \<^verbatim>\<open>flag\<close>. \<^verbatim>\<open>data_slices\<close> is a pointer, null or an array of
  \<^verbatim>\<open>Array1D<SizeT, DataSlice>\<close>, one per GPU, each holding one slice on the host and
  its copy on the device. \<^verbatim>\<open>num_gpus\<close> is a C \<^verbatim>\<open>int\<close> that counts devices; it is a
  natural number here.
\<close>

record Problem =
  num_gpus :: nat
  problem_gpu_idx :: "int list"
  org_graph :: "graph option"
  sub_graphs :: "graph list"
  flag :: nat
  data_slices :: "DataSlice Array1D list option"

text \<open>
  A method call on \<^verbatim>\<open>data_slices[i]\<close>. The pointer is dereferenced: null, or an index
  outside the array, is an illegal address.
\<close>

definition at_slice ::
  "nat \<Rightarrow> (DataSlice Array1D \<Rightarrow> cudaError_t \<times> DataSlice Array1D) \<Rightarrow> Problem \<Rightarrow>
     cudaError_t \<times> Problem" where
  "at_slice i f p =
     (case data_slices p of
        None \<Rightarrow> (IllegalAddress, p)
      | Some xs \<Rightarrow>
          if i < length xs
          then (case f (xs ! i) of (r, a) \<Rightarrow> (r, p\<lparr>data_slices := Some (xs[i := a])\<rparr>))
          else (IllegalAddress, p))"

text \<open>
  \<^verbatim>\<open>data_slices[gpu] -> method(...)\<close> and \<^verbatim>\<open>data_slices[gpu][0]\<close>: the slice is element 0
  of the host side.
\<close>

definition arrow ::
  "(DataSlice \<Rightarrow> cudaError_t \<times> DataSlice) \<Rightarrow> DataSlice Array1D \<Rightarrow>
     cudaError_t \<times> DataSlice Array1D" where
  "arrow f a =
     (case h_pointer a of
        Some (Some ds # rest) \<Rightarrow>
          (case f ds of (r, ds') \<Rightarrow> (r, a\<lparr>h_pointer := Some (Some ds' # rest)\<rparr>))
      | _ \<Rightarrow> (IllegalAddress, a))"

text \<open>\<^verbatim>\<open>util::SetDevice(this->gpu_idx[gpu])\<close>.\<close>

definition SetDevice_gpu :: "cuda_env \<Rightarrow> nat \<Rightarrow> Problem \<Rightarrow> cudaError_t \<times> Problem" where
  "SetDevice_gpu env gpu p =
     (if gpu < length (problem_gpu_idx p) then SetDevice env (problem_gpu_idx p ! gpu) p
      else (IllegalAddress, p))"

text \<open>
  Modelled from the spec: \<^verbatim>\<open>BaseProblem::Release\<close> is outside the sources; it frees
  resources of the base class, none of which is modelled.
\<close>

definition BaseProblem_Release :: "Location \<Rightarrow> Problem \<Rightarrow> cudaError_t \<times> Problem" where
  "BaseProblem_Release target p = (cudaSuccess, p)"

text \<open>
  Modelled from the spec: \<^verbatim>\<open>Release(target)\<close> of a holder, an
  \<^verbatim>\<open>Array1D<SizeT, DataSlice>\<close>, is \<^verbatim>\<open>Array1D\<close>'s and outside the sources. Freeing
  the host side ends the life of the slice that lives there, and destruction implies
  \<open>Release\<close> at all locations: the destructor of line 110 runs. The device side
  holds the image of the slice that \<^verbatim>\<open>Move\<close> copied there; the image refers to the
  arrays of the slice and reads them as the destructor leaves them. Freeing the device
  side frees the image and runs no destructor.
\<close>

definition holder_Release ::
  "cuda_env \<Rightarrow> Location \<Rightarrow> DataSlice Array1D \<Rightarrow> cudaError_t \<times> DataSlice Array1D" where
  "holder_Release env target a =
     Array1D_Release target
       (if target AND HOST \<noteq> 0 \<and> h_pointer a \<noteq> None
        then a\<lparr>d_pointer :=
                 map_option (map (map_option (DataSlice_destructor env))) (d_pointer a)\<rparr>
        else a)"

text \<open>
  \<^verbatim>\<open>Problem::Release(target)\<close>, lines 261 to 275. The loop calls \<open>Release\<close> on the
  holders \<^verbatim>\<open>data_slices[i]\<close>, not on the slices. The second operand of \<^verbatim>\<open>&&\<close> is
  evaluated only when the first holds. \<^verbatim>\<open>delete[] data_slices\<close> destroys the holders;
  the target includes the host, so the loop has freed their host sides, and the slices
  with them.
\<close>

definition delete_data_slices :: "Location \<Rightarrow> Problem \<Rightarrow> cudaError_t \<times> Problem" where
  "delete_data_slices target p =
     (if target AND HOST \<noteq> 0 then
        (case data_slices p of
           Some (a # rest) \<Rightarrow>
             if GetPointer DEVICE a = None then (cudaSuccess, p\<lparr>data_slices := None\<rparr>)
             else (cudaSuccess, p)
         | _ \<Rightarrow> (IllegalAddress, p))
      else (cudaSuccess, p))"

definition Problem_Release :: "cuda_env \<Rightarrow> Location \<Rightarrow> Problem \<Rightarrow> cudaError_t \<times> Problem" where
  "Problem_Release env target p =
     (if data_slices p = None then (cudaSuccess, p)
      else GUARD_CU_seq
             (map (\<lambda>i. at_slice i (holder_Release env target)) [0..<num_gpus p] @
              [delete_data_slices target, BaseProblem_Release target]) p)"

text \<open>
  \<^verbatim>\<open>Problem::Extract(h_degrees, target)\<close>, lines 282 to 344. The caller's buffer is
  returned as the call leaves it. The multi-GPU branch is commented out in the source:
  it does nothing.
\<close>

definition Extract_DEVICE ::
  "cuda_env \<Rightarrow> nat \<Rightarrow> real option list \<Rightarrow> DataSlice \<Rightarrow>
     cudaError_t \<times> DataSlice \<times> real option list" where
  "Extract_DEVICE env n h_degrees data_slice =
     (case on_degrees (Array1D_SetPointer h_degrees n) data_slice of (r1, ds1) \<Rightarrow>
        if r1 \<noteq> cudaSuccess then (r1, ds1, h_degrees)
        else (case on_degrees (Array1D_Move env DEVICE HOST) ds1 of (r2, ds2) \<Rightarrow>
                (r2, ds2, write_back (degrees ds2) n h_degrees)))"

definition Extract_HOST ::
  "nat \<Rightarrow> real option list \<Rightarrow> DataSlice \<Rightarrow> cudaError_t \<times> DataSlice \<times> real option list" where
  "Extract_HOST n h_degrees data_slice =
     (case Array1D_ForEach2 h_degrees (\<lambda>device_val host_val. device_val) n
             (degrees data_slice) of
        (r, h') \<Rightarrow> (r, data_slice, h'))"

text \<open>A branch that uses \<^verbatim>\<open>data_slice\<close>, the slice \<^verbatim>\<open>data_slices[0][0]\<close>.\<close>

definition with_data_slice ::
  "(DataSlice \<Rightarrow> cudaError_t \<times> DataSlice \<times> real option list) \<Rightarrow>
     DataSlice Array1D \<Rightarrow> DataSlice Array1D list \<Rightarrow> real option list \<Rightarrow> Problem \<Rightarrow>
     cudaError_t \<times> Problem \<times> real option list" where
  "with_data_slice f a rest h_degrees p =
     (case h_pointer a of
        Some (Some data_slice # others) \<Rightarrow>
          (case f data_slice of (r, ds', h') \<Rightarrow>
             (r, p\<lparr>data_slices := Some (a\<lparr>h_pointer := Some (Some ds' # others)\<rparr> # rest)\<rparr>, h'))
      | _ \<Rightarrow> (IllegalAddress, p, h_degrees))"

definition Problem_Extract ::
  "cuda_env \<Rightarrow> real option list \<Rightarrow> Location \<Rightarrow> Problem \<Rightarrow>
     cudaError_t \<times> Problem \<times> real option list" where
  "Problem_Extract env h_degrees target p =
     (case org_graph p of
        None \<Rightarrow> (IllegalAddress, p, h_degrees)
      | Some g \<Rightarrow>
          if num_gpus p = 1 then
            (case data_slices p of
               Some (a # rest) \<Rightarrow>
                 if target = DEVICE then
                   (case SetDevice_gpu env 0 p of (r, p') \<Rightarrow>
                      if r \<noteq> cudaSuccess then (r, p', h_degrees)
                      else with_data_slice (Extract_DEVICE env (nodes g) h_degrees)
                             a rest h_degrees p')
                 else if target = HOST then
                   with_data_slice (Extract_HOST (nodes g) h_degrees) a rest h_degrees p
                 else (cudaSuccess, p, h_degrees)
             | _ \<Rightarrow> (IllegalAddress, p, h_degrees))
          else (cudaSuccess, p, h_degrees))"

text \<open>
  Modelled from the spec: \<^verbatim>\<open>BaseProblem::Init\<close> is outside the sources. It records the
  graph and partitions it over the devices. The partitioner is external: the partition
  it produces is the one the record carries in \<open>sub_graphs\<close>, and a record without one
  partition per device stands for a partitioner that cannot split the graph.
\<close>

definition BaseProblem_Init :: "graph \<Rightarrow> Location \<Rightarrow> Problem \<Rightarrow> cudaError_t \<times> Problem" where
  "BaseProblem_Init g target p =
     (if length (sub_graphs p) = num_gpus p then (cudaSuccess, p\<lparr>org_graph := Some g\<rparr>)
      else (PartitionFailure, p))"

text \<open>
  Modelled from the spec: \<^verbatim>\<open>Allocate(n, target)\<close> on a holder. The cells of the host
  side are slices, each built by the default constructor; the device side is memory
  that nothing has written.
\<close>

definition holder_Allocate ::
  "cuda_env \<Rightarrow> nat \<Rightarrow> Location \<Rightarrow> DataSlice Array1D \<Rightarrow> cudaError_t \<times> DataSlice Array1D" where
  "holder_Allocate env n target a =
     (case Array1D_Allocate env n target a of
        (r, a') \<Rightarrow>
          (r, if target AND HOST \<noteq> 0
              then a'\<lparr>h_pointer := map_option (map (\<lambda>c. Some DataSlice_new)) (h_pointer a')\<rparr>
              else a'))"

text \<open>
  \<^verbatim>\<open>Problem::Init(graph, target)\<close>, lines 352 to 383: the body of the loop for one GPU,
  and the method. \<^verbatim>\<open>new util::Array1D<SizeT, DataSlice>[num_gpus]\<close> is an array of
  empty holders. \<^verbatim>\<open>sub_graphs[gpu]\<close> and \<^verbatim>\<open>gpu_idx[gpu]\<close> are read when the slice is
  initialised.
\<close>

definition Init_gpu :: "cuda_env \<Rightarrow> Location \<Rightarrow> nat \<Rightarrow> Problem \<Rightarrow> cudaError_t \<times> Problem" where
  "Init_gpu env target gpu =
     GUARD_CU_seq
       [if_then (target AND DEVICE \<noteq> 0) (SetDevice_gpu env gpu),
        at_slice gpu (holder_Allocate env 1 (target OR HOST)),
        \<lambda>p. if gpu < length (sub_graphs p) \<and> gpu < length (problem_gpu_idx p)
             then at_slice gpu
                    (arrow (DataSlice_Init env (sub_graphs p ! gpu) (int (num_gpus p))
                              (problem_gpu_idx p ! gpu) target (flag p))) p
             else (IllegalAddress, p)]"

definition Problem_Init :: "cuda_env \<Rightarrow> graph \<Rightarrow> Location \<Rightarrow> Problem \<Rightarrow> cudaError_t \<times> Problem" where
  "Problem_Init env g target p =
     (case BaseProblem_Init g target p of
        (r, p0) \<Rightarrow>
          if r \<noteq> cudaSuccess then (r, p0)
          else GUARD_CU_seq (map (Init_gpu env target) [0..<num_gpus p0])
                 (p0\<lparr>data_slices := Some (replicate (num_gpus p0) Array1D_empty)\<rparr>))"

text \<open>
  \<^verbatim>\<open>Problem::Reset(target)\<close>, lines 391 to 412: the body of the loop for one GPU, the
  loop, and the synchronisation that ends it.
\<close>

definition Reset_gpu :: "cuda_env \<Rightarrow> Location \<Rightarrow> nat \<Rightarrow> Problem \<Rightarrow> cudaError_t \<times> Problem" where
  "Reset_gpu env target gpu =
     GUARD_CU_seq
       [if_then (target AND DEVICE \<noteq> 0) (SetDevice_gpu env gpu),
        at_slice gpu (arrow (DataSlice_Reset env target)),
        at_slice gpu (Array1D_Move env HOST target)]"

text \<open>
  Modelled from the spec: \<^verbatim>\<open>cudaDeviceSynchronize\<close> is the runtime's barrier; its
  failure is reported as a transfer that did not complete.
\<close>

definition cudaDeviceSynchronize :: "cuda_env \<Rightarrow> 's \<Rightarrow> cudaError_t \<times> 's" where
  "cudaDeviceSynchronize env s =
     (if DeviceSynchronize_ok env then (cudaSuccess, s) else (TransferFailure, s))"

definition Problem_Reset :: "cuda_env \<Rightarrow> Location \<Rightarrow> Problem \<Rightarrow> cudaError_t \<times> Problem" where
  "Problem_Reset env target p =
     GUARD_CU_seq
       (map (Reset_gpu env target) [0..<num_gpus p] @ [cudaDeviceSynchronize env]) p"

section \<open>HITSProblem, the older variant of the same file\<close>

text \<open>
  The slice of \<^verbatim>\<open>HITSProblem\<close> has five arrays. Its fields carry the prefix \<open>hits\<close>
  where the name is taken by \<^verbatim>\<open>Problem\<close>.
\<close>

record HITS_DataSlice =
  hits_hrank_curr :: "real Array1D"
  hits_arank_curr :: "real Array1D"
  hits_hrank_next :: "real Array1D"
  hits_arank_next :: "real Array1D"
  rank_mag :: "real Array1D"

definition on_hits_hrank_curr ::
  "(real Array1D \<Rightarrow> cudaError_t \<times> real Array1D) \<Rightarrow> HITS_DataSlice \<Rightarrow>
     cudaError_t \<times> HITS_DataSlice" where
  "on_hits_hrank_curr f ds =
     (case f (hits_hrank_curr ds) of (r, a) \<Rightarrow> (r, ds\<lparr>hits_hrank_curr := a\<rparr>))"

definition on_hits_arank_curr ::
  "(real Array1D \<Rightarrow> cudaError_t \<times> real Array1D) \<Rightarrow> HITS_DataSlice \<Rightarrow>
     cudaError_t \<times> HITS_DataSlice" where
  "on_hits_arank_curr f ds =
     (case f (hits_arank_curr ds) of (r, a) \<Rightarrow> (r, ds\<lparr>hits_arank_curr := a\<rparr>))"

definition on_hits_hrank_next ::
  "(real Array1D \<Rightarrow> cudaError_t \<times> real Array1D) \<Rightarrow> HITS_DataSlice \<Rightarrow>
     cudaError_t \<times> HITS_DataSlice" where
  "on_hits_hrank_next f ds =
     (case f (hits_hrank_next ds) of (r, a) \<Rightarrow> (r, ds\<lparr>hits_hrank_next := a\<rparr>))"

definition on_hits_arank_next ::
  "(real Array1D \<Rightarrow> cudaError_t \<times> real Array1D) \<Rightarrow> HITS_DataSlice \<Rightarrow>
     cudaError_t \<times> HITS_DataSlice" where
  "on_hits_arank_next f ds =
     (case f (hits_arank_next ds) of (r, a) \<Rightarrow> (r, ds\<lparr>hits_arank_next := a\<rparr>))"

definition on_rank_mag ::
  "(real Array1D \<Rightarrow> cudaError_t \<times> real Array1D) \<Rightarrow> HITS_DataSlice \<Rightarrow>
     cudaError_t \<times> HITS_DataSlice" where
  "on_rank_mag f ds = (case f (rank_mag ds) of (r, a) \<Rightarrow> (r, ds\<lparr>rank_mag := a\<rparr>))"

text \<open>
  \<^verbatim>\<open>data_slices\<close> is a \<^verbatim>\<open>DataSlice **\<close>: null, or an array of pointers to slices, each
  of which may be null. \<^verbatim>\<open>d_data_slices\<close> holds the device copies of the slices.
\<close>

record HITSProblem =
  hits_num_gpus :: nat
  hits_gpu_idx :: "int list"
  hits_nodes :: nat
  selector :: nat
  hits_data_slices :: "HITS_DataSlice option list option"
  d_data_slices :: "HITS_DataSlice option list option"

text \<open>A method call through \<^verbatim>\<open>data_slices[i]->\<close>.\<close>

definition at_hits_slice ::
  "nat \<Rightarrow> (HITS_DataSlice \<Rightarrow> cudaError_t \<times> HITS_DataSlice) \<Rightarrow> HITSProblem \<Rightarrow>
     cudaError_t \<times> HITSProblem" where
  "at_hits_slice i f p =
     (case hits_data_slices p of
        None \<Rightarrow> (IllegalAddress, p)
      | Some xs \<Rightarrow>
          if i < length xs then
            (case xs ! i of
               None \<Rightarrow> (IllegalAddress, p)
             | Some ds \<Rightarrow>
                 (case f ds of (r, ds') \<Rightarrow>
                    (r, p\<lparr>hits_data_slices := Some (xs[i := Some ds'])\<rparr>)))
          else (IllegalAddress, p))"

text \<open>\<^verbatim>\<open>cudaSetDevice(this->gpu_idx[gpu])\<close>.\<close>

definition cudaSetDevice_gpu ::
  "cuda_env \<Rightarrow> nat \<Rightarrow> HITSProblem \<Rightarrow> cudaError_t \<times> HITSProblem" where
  "cudaSetDevice_gpu env gpu p =
     (if gpu < length (hits_gpu_idx p) then SetDevice env (hits_gpu_idx p ! gpu) p
      else (IllegalAddress, p))"

text \<open>
  \<^verbatim>\<open>HITSProblem::Extract(h_hrank, h_arank)\<close>, lines 576 to 600. When \<^verbatim>\<open>cudaSetDevice\<close>
  fails the source leaves the loop by \<^verbatim>\<open>break\<close> without assigning \<^verbatim>\<open>retval\<close>, which
  is still \<^verbatim>\<open>cudaSuccess\<close>. \<^verbatim>\<open>SetPointer\<close> is called without a size (the buffer is
  taken whole) and its status is not looked at.
\<close>

definition Extract_rank ::
  "cuda_env \<Rightarrow> real option list \<Rightarrow> real Array1D \<Rightarrow>
     cudaError_t \<times> real Array1D \<times> real option list" where
  "Extract_rank env h a =
     (case Array1D_SetPointer h (length h) a of (r1, a1) \<Rightarrow>
        (case Array1D_Move env DEVICE HOST a1 of (r2, a2) \<Rightarrow>
           (r2, a2, write_back a2 (length h) h)))"

definition HITSProblem_Extract ::
  "cuda_env \<Rightarrow> real option list \<Rightarrow> real option list \<Rightarrow> HITSProblem \<Rightarrow>
     cudaError_t \<times> HITSProblem \<times> real option list \<times> real option list" where
  "HITSProblem_Extract env h_hrank h_arank p =
     (if hits_num_gpus p = 1 then
        (case cudaSetDevice_gpu env 0 p of (r0, p0) \<Rightarrow>
           if r0 = IllegalAddress then (IllegalAddress, p, h_hrank, h_arank)
           else if r0 \<noteq> cudaSuccess then (cudaSuccess, p, h_hrank, h_arank)
           else
             (case hits_data_slices p of
                Some (Some ds # rest) \<Rightarrow>
                  (case Extract_rank env h_hrank (hits_hrank_curr ds) of (r1, a1, hh) \<Rightarrow>
                     if r1 \<noteq> cudaSuccess
                     then (r1, p\<lparr>hits_data_slices :=
                                   Some (Some (ds\<lparr>hits_hrank_curr := a1\<rparr>) # rest)\<rparr>,
                           hh, h_arank)
                     else
                       (case Extract_rank env h_arank (hits_arank_curr ds) of (r2, a2, ha) \<Rightarrow>
                          (r2, p\<lparr>hits_data_slices :=
                                   Some (Some (ds\<lparr>hits_hrank_curr := a1,
                                                    hits_arank_curr := a2\<rparr>) # rest)\<rparr>,
                           hh, ha)))
              | _ \<Rightarrow> (IllegalAddress, p, h_hrank, h_arank)))
      else (cudaSuccess, p, h_hrank, h_arank))"

text \<open>
  Modelled from the spec: \<^verbatim>\<open>util::MemsetKernel\<close> is outside the sources.
  \<^verbatim>\<open>MemsetKernel<<<..>>>(ptr, value, length)\<close>, on the device side of an array, fills
  its first \<open>length\<close> cells with the value.
\<close>

definition MemsetKernel :: "'a \<Rightarrow> nat \<Rightarrow> 'a Array1D \<Rightarrow> cudaError_t \<times> 'a Array1D" where
  "MemsetKernel v n = for_each_device (\<lambda>x. v) n"

text \<open>
  Modelled from the spec: \<^verbatim>\<open>cudaMemcpy\<close> is the runtime's transfer and can fail.
  \<^verbatim>\<open>cudaMemcpy(GetPointer(DEVICE) + src, &init_score, sizeof(Value), ..)\<close> writes one
  cell of the device side. \<^verbatim>\<open>src\<close> is a signed \<^verbatim>\<open>VertexId\<close>.
\<close>

definition cudaMemcpy_cell ::
  "cuda_env \<Rightarrow> int \<Rightarrow> 'a \<Rightarrow> 'a Array1D \<Rightarrow> cudaError_t \<times> 'a Array1D" where
  "cudaMemcpy_cell env src v a =
     (case d_pointer a of
        None \<Rightarrow> (IllegalAddress, a)
      | Some xs \<Rightarrow>
          if 0 \<le> src \<and> nat src < length xs then
            (if memcpy_ok env then (cudaSuccess, a\<lparr>d_pointer := Some (xs[nat src := Some v])\<rparr>)
             else (TransferFailure, a))
          else (IllegalAddress, a))"

text \<open>
  Modelled from the spec: \<^verbatim>\<open>cudaMemcpy\<close> is the runtime's transfer and can fail.
  \<^verbatim>\<open>cudaMemcpy(d_data_slices[gpu], data_slices[gpu], sizeof(DataSlice), ..)\<close> copies
  the slice to its place on the device, which must have been allocated.
\<close>

definition copy_to_d_data_slices ::
  "cuda_env \<Rightarrow> nat \<Rightarrow> HITSProblem \<Rightarrow> cudaError_t \<times> HITSProblem" where
  "copy_to_d_data_slices env gpu p =
     (case (hits_data_slices p, d_data_slices p) of
        (Some xs, Some ds) \<Rightarrow>
          if gpu < length xs \<and> gpu < length ds \<and> xs ! gpu \<noteq> None \<and> ds ! gpu \<noteq> None then
            (if memcpy_ok env then (cudaSuccess, p\<lparr>d_data_slices := Some (ds[gpu := xs ! gpu])\<rparr>)
             else (TransferFailure, p))
          else (IllegalAddress, p)
      | _ \<Rightarrow> (IllegalAddress, p))"

text \<open>
  Modelled from the spec: the \<^verbatim>\<open>Reset\<close> of the base slice is outside the sources, with
  the frontier queues it works on; it touches none of the five arrays.
\<close>

definition BaseDataSlice_Reset :: "nat \<Rightarrow> real \<Rightarrow> HITS_DataSlice \<Rightarrow> cudaError_t \<times> HITS_DataSlice" where
  "BaseDataSlice_Reset frontier_type queue_sizing ds = (cudaSuccess, ds)"

text \<open>
  \<^verbatim>\<open>HITSProblem::Reset(src, delta, frontier_type, queue_sizing)\<close>, lines 706 to 792: an
  array whose device pointer is null is allocated; the body of the loop for one GPU;
  the loop and the write of the seed at \<^verbatim>\<open>src\<close>. The call of the base slice's
  \<^verbatim>\<open>Reset\<close> is kept for the dereference of \<^verbatim>\<open>data_slices[gpu]\<close>; its status is dropped
  as in the source. The closing \<^verbatim>\<open>MemsetIdxKernel\<close> works on a frontier queue of the base
  slice and is left out. \<^verbatim>\<open>delta\<close> is not used by the source.
\<close>

definition allocate_if_null ::
  "cuda_env \<Rightarrow> nat \<Rightarrow> 'a Array1D \<Rightarrow> cudaError_t \<times> 'a Array1D" where
  "allocate_if_null env n a =
     if_then (GetPointer DEVICE a = None) (Array1D_Allocate env n DEVICE) a"

definition HITS_Reset_gpu ::
  "cuda_env \<Rightarrow> nat \<Rightarrow> nat \<Rightarrow> real \<Rightarrow> nat \<Rightarrow> HITSProblem \<Rightarrow> cudaError_t \<times> HITSProblem" where
  "HITS_Reset_gpu env n frontier_type queue_sizing gpu =
     GUARD_CU_seq
       [cudaSetDevice_gpu env gpu,
        at_hits_slice gpu (\<lambda>ds. (cudaSuccess, snd (BaseDataSlice_Reset frontier_type queue_sizing ds))),
        at_hits_slice gpu (on_hits_hrank_curr (allocate_if_null env n)),
        at_hits_slice gpu (on_hits_arank_curr (allocate_if_null env n)),
        at_hits_slice gpu (on_hits_hrank_next (allocate_if_null env n)),
        at_hits_slice gpu (on_hits_arank_next (allocate_if_null env n)),
        at_hits_slice gpu (on_rank_mag (allocate_if_null env 1)),
        at_hits_slice gpu (on_hits_hrank_curr (MemsetKernel 1 n)),
        at_hits_slice gpu (on_hits_arank_curr (MemsetKernel 1 n)),
        at_hits_slice gpu (on_hits_hrank_next (MemsetKernel 0 n)),
        at_hits_slice gpu (on_hits_arank_next (MemsetKernel 0 n)),
        at_hits_slice gpu (on_rank_mag (MemsetKernel 0 1)),
        copy_to_d_data_slices env gpu]"

definition HITSProblem_Reset ::
  "cuda_env \<Rightarrow> int \<Rightarrow> real \<Rightarrow> nat \<Rightarrow> real \<Rightarrow> HITSProblem \<Rightarrow> cudaError_t \<times> HITSProblem" where
  "HITSProblem_Reset env src delta frontier_type queue_sizing p =
     GUARD_CU_seq
       (map (HITS_Reset_gpu env (hits_nodes p) frontier_type queue_sizing)
            [0..<hits_num_gpus p] @
        [at_hits_slice 0 (on_hits_hrank_curr (cudaMemcpy_cell env src 1))]) p"

section \<open>Notions used by the statements and the proofs\<close>

text \<open>A slice whose eight arrays all read back as a null pointer at a location.\<close>

definition released_at :: "Location \<Rightarrow> DataSlice \<Rightarrow> bool" where
  "released_at loc ds =
     (GetPointer loc (degrees ds) = None \<and> GetPointer loc (visited ds) = None \<and>
      GetPointer loc (hrank_curr ds) = None \<and> GetPointer loc (arank_curr ds) = None \<and>
      GetPointer loc (hrank_next ds) = None \<and> GetPointer loc (arank_next ds) = None \<and>
      GetPointer loc (in_degrees ds) = None \<and> GetPointer loc (out_degrees ds) = None)"



text \<open>
  The holders are one per device, and a device copy on any device comes with one on
  device 0. The loops of \<open>Init\<close>, \<open>Reset\<close> and \<open>Release\<close> take the devices in
  ascending order, so the problems they produce all have this shape.
\<close>

definition device_copies_from_0 :: "Problem \<Rightarrow> bool" where
  "device_copies_from_0 p =
     (case data_slices p of
        None \<Rightarrow> True
      | Some xs \<Rightarrow>
          length xs = num_gpus p \<and>
          (case xs of
             [] \<Rightarrow> True
           | a # rest \<Rightarrow>
               GetPointer DEVICE a \<noteq> None \<or> list_all (\<lambda>b. GetPointer DEVICE b = None) rest))"

text \<open>
  Three shapes that the loops pass through: the holder of device 0 has its device
  copy; no holder but that of device 0 has one; no holder has one.
\<close>

definition first_on_device :: "Problem \<Rightarrow> bool" where
  "first_on_device p =
     (case data_slices p of
        Some (a # rest) \<Rightarrow> length (a # rest) = num_gpus p \<and> GetPointer DEVICE a \<noteq> None
      | _ \<Rightarrow> False)"

definition others_off_device :: "Problem \<Rightarrow> bool" where
  "others_off_device p =
     (case data_slices p of
        Some (a # rest) \<Rightarrow>
          length (a # rest) = num_gpus p \<and> list_all (\<lambda>b. GetPointer DEVICE b = None) rest
      | Some [] \<Rightarrow> num_gpus p = 0
      | None \<Rightarrow> False)"

definition all_off_device :: "Problem \<Rightarrow> bool" where
  "all_off_device p =
     (case data_slices p of
        Some xs \<Rightarrow> length xs = num_gpus p \<and> list_all (\<lambda>a. GetPointer DEVICE a = None) xs
      | None \<Rightarrow> False)"

text \<open>
  The problems of the lifecycle: a problem as its constructor leaves it
  (\<^verbatim>\<open>data_slices(NULL)\<close>), and whatever \<open>Init\<close>, \<open>Reset\<close>, \<open>Extract\<close> and
  \<open>Release\<close> make of such a problem, on any machine, with any argument, and whether
  the call succeeds or fails.
\<close>

inductive lifecycle :: "Problem \<Rightarrow> bool" where
  constructed: "data_slices p = None \<Longrightarrow> lifecycle p"
| Init: "lifecycle p \<Longrightarrow> lifecycle (snd (Problem_Init env g target p))"
| Reset: "lifecycle p \<Longrightarrow> lifecycle (snd (Problem_Reset env target p))"
| Extract: "lifecycle p \<Longrightarrow> lifecycle (fst (snd (Problem_Extract env h_degrees target p)))"
| Release: "lifecycle p \<Longrightarrow> lifecycle (snd (Problem_Release env target p))"

text \<open>
  The body of the loop of \<^verbatim>\<open>Problem::Reset\<close> as it acts on \<^verbatim>\<open>data_slices[gpu]\<close>, the
  only object it touches, given the device index \<^verbatim>\<open>gpu_idx[gpu]\<close>.
\<close>

definition Reset_holder ::
  "cuda_env \<Rightarrow> Location \<Rightarrow> int \<Rightarrow> DataSlice Array1D \<Rightarrow> cudaError_t \<times> DataSlice Array1D" where
  "Reset_holder env target idx =
     GUARD_CU_seq
       [if_then (target AND DEVICE \<noteq> 0) (SetDevice env idx),
        arrow (DataSlice_Reset env target),
        Array1D_Move env HOST target]"

text \<open>
  The device side of \<^verbatim>\<open>hrank_curr\<close> of slice 0 holds the seed value 1 in its first \<open>n\<close>
  cells.
\<close>

definition hrank_seeded :: "nat \<Rightarrow> HITSProblem \<Rightarrow> bool" where
  "hrank_seeded n p =
     (case hits_data_slices p of
        Some (Some ds # rest) \<Rightarrow>
          (case d_pointer (hits_hrank_curr ds) of
             Some cells \<Rightarrow> n \<le> length cells \<and> take n cells = replicate n (Some 1)
           | None \<Rightarrow> n = 0)
      | _ \<Rightarrow> False)"

text \<open>
  Two properties of a run of guarded steps, used to show that running it again changes
  nothing: a step \<open>settles\<close> when running it on its own result gives that result
  again, and the steps of a list keep each other's fixed points when no later step
  disturbs a state on which an earlier step succeeds without effect.
\<close>

definition settles :: "('s \<Rightarrow> cudaError_t \<times> 's) \<Rightarrow> bool" where
  "settles f = (\<forall>s. f (snd (f s)) = f s)"

fun later_keep :: "('s \<Rightarrow> cudaError_t \<times> 's) list \<Rightarrow> bool" where
  "later_keep [] = True"
| "later_keep (f # fs) =
     ((\<forall>g \<in> set fs. \<forall>s. f s = (cudaSuccess, s) \<longrightarrow> f (snd (g s)) = (cudaSuccess, snd (g s)))
      \<and> later_keep fs)"

text \<open>
  The problem after the loop of \<^verbatim>\<open>Problem::Reset\<close> has run its body for the devices
  \<open>0, .., j - 1\<close> of the slices \<open>xs\<close>: those holders are as the body leaves them,
  the holders from \<open>j\<close> on are untouched.
\<close>

definition reset_upto ::
  "cuda_env \<Rightarrow> Location \<Rightarrow> Problem \<Rightarrow> DataSlice Array1D list \<Rightarrow> nat \<Rightarrow> Problem" where
  "reset_upto env target p xs j =
     p\<lparr>data_slices :=
         Some (map (\<lambda>i. snd (Reset_holder env target (problem_gpu_idx p ! i) (xs ! i))) [0..<j]
               @ drop j xs)\<rparr>"

section \<open>Concrete environments and objects\<close>

text \<open>A machine with two GPUs, one with GPU 0 only, and one without a GPU.\<close>

definition env_ok :: cuda_env where
  "env_ok =
     \<lparr>SetDevice_ok = (\<lambda>idx. 0 \<le> idx \<and> idx < 2), host_alloc_ok = (\<lambda>n. True),
      device_alloc_ok = (\<lambda>n. True), memcpy_ok = True, DeviceSynchronize_ok = True\<rparr>"

definition env_one_gpu :: cuda_env where
  "env_one_gpu = env_ok\<lparr>SetDevice_ok := (\<lambda>idx. idx = 0)\<rparr>"

definition env_no_gpu :: cuda_env where
  "env_no_gpu = env_ok\<lparr>SetDevice_ok := (\<lambda>idx. False)\<rparr>"

text \<open>
  A graph of four vertices split \<open>{0, 1}\<close> to device 0 and \<open>{2, 3}\<close> to device 1, its
  two partitions, and a graph of three vertices.
\<close>

definition g4 :: graph where
  "g4 = \<lparr>nodes = 4, partition_table = [0, 0, 1, 1], convertion_table = [0, 1, 0, 1]\<rparr>"

definition g2 :: graph where
  "g2 = \<lparr>nodes = 2, partition_table = [0, 0], convertion_table = [0, 1]\<rparr>"

definition g3 :: graph where
  "g3 = \<lparr>nodes = 3, partition_table = [0, 0, 0], convertion_table = [0, 1, 2]\<rparr>"

text \<open>A slice after \<open>Init\<close> and \<open>Reset\<close> on the device, and the holder of a slice.\<close>

definition slice_of :: "graph \<Rightarrow> int \<Rightarrow> DataSlice" where
  "slice_of g idx =
     snd (DataSlice_Reset env_ok DEVICE
            (snd (DataSlice_Init env_ok g 1 idx DEVICE 0 DataSlice_new)))"

definition holder_of :: "DataSlice \<Rightarrow> DataSlice Array1D" where
  "holder_of ds = \<lparr>h_pointer = Some [Some ds], d_pointer = Some [Some ds]\<rparr>"

definition P1 :: Problem where
  "P1 = \<lparr>num_gpus = 1, problem_gpu_idx = [0], org_graph = Some g2, sub_graphs = [g2],
          flag = 0, data_slices = Some [holder_of (slice_of g2 0)]\<rparr>"

definition P2 :: Problem where
  "P2 = \<lparr>num_gpus = 2, problem_gpu_idx = [0, 1], org_graph = Some g4, sub_graphs = [g2, g2],
          flag = 0,
          data_slices = Some [holder_of (slice_of g2 0), holder_of (slice_of g2 1)]\<rparr>"

text \<open>
  A slice of the older variant with vertex \<open>i\<close> at hub rank \<open>i * 0.5\<close>, and problems of
  one and of two GPUs built on it.
\<close>

definition hits_slice :: HITS_DataSlice where
  "hits_slice =
     \<lparr>hits_hrank_curr = \<lparr>h_pointer = None, d_pointer = Some [Some 0, Some (1/2), Some 1]\<rparr>,
      hits_arank_curr = \<lparr>h_pointer = None, d_pointer = Some [Some 1, Some (3/2), Some 2]\<rparr>,
      hits_hrank_next = \<lparr>h_pointer = None, d_pointer = Some [Some 0, Some 0, Some 0]\<rparr>,
      hits_arank_next = \<lparr>h_pointer = None, d_pointer = Some [Some 0, Some 0, Some 0]\<rparr>,
      rank_mag = \<lparr>h_pointer = None, d_pointer = Some [Some 0]\<rparr>\<rparr>"

definition HP1 :: HITSProblem where
  "HP1 = \<lparr>hits_num_gpus = 1, hits_gpu_idx = [0], hits_nodes = 3, selector = 0,
           hits_data_slices = Some [Some hits_slice], d_data_slices = Some [Some hits_slice]\<rparr>"

definition HP2 :: HITSProblem where
  "HP2 = \<lparr>hits_num_gpus = 2, hits_gpu_idx = [0, 1], hits_nodes = 3, selector = 0,
           hits_data_slices = Some [Some hits_slice, Some hits_slice],
           d_data_slices = Some [Some hits_slice, Some hits_slice]\<rparr>"

text \<open>
  A slice after \<open>Init\<close> on the device and before any \<open>Reset\<close>, its holder (the device
  copy allocated and not yet written), and a problem of two GPUs in that state.
\<close>

definition init_slice :: "graph \<Rightarrow> int \<Rightarrow> DataSlice" where
  "init_slice g idx = snd (DataSlice_Init env_ok g 1 idx DEVICE 0 DataSlice_new)"

definition init_holder :: "DataSlice \<Rightarrow> DataSlice Array1D" where
  "init_holder ds = \<lparr>h_pointer = Some [Some ds], d_pointer = Some [None]\<rparr>"

definition P2_init :: Problem where
  "P2_init =
     \<lparr>num_gpus = 2, problem_gpu_idx = [0, 1], org_graph = Some g4, sub_graphs = [g2, g2],
      flag = 0,
      data_slices = Some [init_holder (init_slice g2 0), init_holder (init_slice g2 1)]\<rparr>"

text \<open>The problem of two GPUs as its constructor leaves it, partitioned and not initialised.\<close>

definition P2_new :: Problem where
  "P2_new =
     \<lparr>num_gpus = 2, problem_gpu_idx = [0, 1], org_graph = None, sub_graphs = [g2, g2],
      flag = 0, data_slices = None\<rparr>"

text \<open>A slice after \<open>Init\<close> and \<open>Reset\<close> on the host, and a problem of one GPU on it.\<close>

definition host_slice_of :: "graph \<Rightarrow> int \<Rightarrow> DataSlice" where
  "host_slice_of g idx =
     snd (DataSlice_Reset env_ok HOST
            (snd (DataSlice_Init env_ok g 1 idx HOST 0 DataSlice_new)))"

definition P1_host :: Problem where
  "P1_host =
     \<lparr>num_gpus = 1, problem_gpu_idx = [0], org_graph = Some g2, sub_graphs = [g2], flag = 0,
      data_slices = Some [\<lparr>h_pointer = Some [Some (host_slice_of g2 0)], d_pointer = None\<rparr>]\<rparr>"

section \<open>Runs of guarded statements\<close>

lemma GUARD_CU_seq_Cons_success:
  "GUARD_CU_seq (f # fs) s = (cudaSuccess, s') \<longleftrightarrow>
     (\<exists>s1. f s = (cudaSuccess, s1) \<and> GUARD_CU_seq fs s1 = (cudaSuccess, s'))"
  by (auto split: prod.splits)

lemma GUARD_CU_seq_Nil_success: "GUARD_CU_seq [] s = (cudaSuccess, s') \<longleftrightarrow> s' = s"
  by auto

lemma GUARD_CU_seq_append:
  "GUARD_CU_seq (fs @ gs) s =
     (case GUARD_CU_seq fs s of (r, s') \<Rightarrow> if r = cudaSuccess then GUARD_CU_seq gs s' else (r, s'))"
  by (induction fs arbitrary: s) (auto split: prod.splits)

text \<open>A property that every step keeps is kept by the run, however it ends.\<close>

lemma GUARD_CU_seq_keeps:
  assumes "\<forall>f \<in> set fs. \<forall>s. P s \<longrightarrow> P (snd (f s))" and "P s"
  shows "P (snd (GUARD_CU_seq fs s))"
  using assms
proof (induction fs arbitrary: s)
  case Nil
  then show ?case by simp
next
  case (Cons f fs)
  obtain r s1 where f: "f s = (r, s1)" by (cases "f s")
  have "P s1" using Cons.prems f by (metis list.set_intros(1) snd_conv)
  then show ?case using f Cons.IH[of s1] Cons.prems by simp
qed

text \<open>A component that no step changes is unchanged by the run.\<close>

lemma GUARD_CU_seq_frame:
  assumes "\<forall>f \<in> set fs. \<forall>s. P (snd (f s)) = P s"
  shows "P (snd (GUARD_CU_seq fs s)) = P s"
  using assms
proof (induction fs arbitrary: s)
  case Nil
  then show ?case by simp
next
  case (Cons f fs)
  obtain r s1 where f: "f s = (r, s1)" by (cases "f s")
  have "P s1 = P s" using Cons.prems f by (metis list.set_intros(1) snd_conv)
  then show ?case using f Cons.IH[of s1] Cons.prems by simp
qed

text \<open>When the run succeeds, so did the step in its middle.\<close>

lemma GUARD_CU_seq_split_success:
  assumes "GUARD_CU_seq (pre @ m # post) s = (cudaSuccess, s')"
  shows "\<exists>s1 s2. m s1 = (cudaSuccess, s2) \<and> s' = snd (GUARD_CU_seq post s2)"
proof -
  obtain r s1 where pre: "GUARD_CU_seq pre s = (r, s1)" by (cases "GUARD_CU_seq pre s")
  obtain r2 s2 where m: "m s1 = (r2, s2)" by (cases "m s1")
  from assms pre m have "r = cudaSuccess" "r2 = cudaSuccess"
    by (auto simp add: GUARD_CU_seq_append split: if_splits)
  with assms pre m have "m s1 = (cudaSuccess, s2)" "s' = snd (GUARD_CU_seq post s2)"
    by (simp_all add: GUARD_CU_seq_append)
  then show ?thesis by blast
qed

lemma stable_through_seq:
  assumes "\<forall>g \<in> set fs. \<forall>s. f s = (cudaSuccess, s) \<longrightarrow> f (snd (g s)) = (cudaSuccess, snd (g s))"
    and "f s = (cudaSuccess, s)"
  shows "f (snd (GUARD_CU_seq fs s)) = (cudaSuccess, snd (GUARD_CU_seq fs s))"
  using assms
proof (induction fs arbitrary: s)
  case Nil
  then show ?case by simp
next
  case (Cons g gs)
  obtain r s1 where g: "g s = (r, s1)" by (cases "g s")
  from Cons.prems have keep: "f s1 = (cudaSuccess, s1)"
    using g by (metis list.set_intros(1) snd_conv)
  show ?case
  proof (cases "r = cudaSuccess")
    case True
    then show ?thesis using g Cons.IH[of s1] Cons.prems(1) keep by simp
  next
    case False
    then show ?thesis using g keep by simp
  qed
qed

text \<open>Running a run of settled, mutually undisturbed steps a second time changes nothing.\<close>

lemma GUARD_CU_seq_settles:
  assumes "\<forall>f \<in> set fs. settles f" and "later_keep fs"
  shows "GUARD_CU_seq fs (snd (GUARD_CU_seq fs s)) = GUARD_CU_seq fs s"
  using assms
proof (induction fs arbitrary: s)
  case Nil
  then show ?case by simp
next
  case (Cons f fs)
  obtain r s1 where f: "f s = (r, s1)" by (cases "f s")
  from Cons.prems(1) have again: "f s1 = (r, s1)"
    using f by (metis list.set_intros(1) settles_def snd_conv)
  show ?case
  proof (cases "r = cudaSuccess")
    case False
    then show ?thesis using f again by simp
  next
    case True
    have keep: "\<forall>g \<in> set fs. \<forall>s. f s = (cudaSuccess, s) \<longrightarrow>
                  f (snd (g s)) = (cudaSuccess, snd (g s))"
      using Cons.prems(2) by simp
    have st: "f (snd (GUARD_CU_seq fs s1)) = (cudaSuccess, snd (GUARD_CU_seq fs s1))"
      using stable_through_seq[OF keep] again True by simp
    have ih: "GUARD_CU_seq fs (snd (GUARD_CU_seq fs s1)) = GUARD_CU_seq fs s1"
      using Cons.IH Cons.prems by simp
    show ?thesis using f True st ih by simp
  qed
qed

section \<open>Locations and arrays\<close>

lemma DEVICE_neq_HOST: "DEVICE \<noteq> HOST"
  by (simp add: DEVICE_def HOST_def)

lemma HOST_neq_0: "HOST \<noteq> 0"
  by (simp add: HOST_def)

lemma GetPointer_HOST: "GetPointer HOST a = h_pointer a"
  by (simp add: GetPointer_def)

lemma GetPointer_DEVICE: "GetPointer DEVICE a = d_pointer a"
  by (simp add: GetPointer_def DEVICE_neq_HOST)

lemma Allocate_empty_success:
  assumes "Array1D_Allocate env n t1 Array1D_empty = (cudaSuccess, a1)"
  shows "h_pointer a1 = (if t1 AND HOST \<noteq> 0 then Some (replicate n None) else None)"
    and "d_pointer a1 = (if t1 AND DEVICE \<noteq> 0 then Some (replicate n None) else None)"
  using assms
  by (auto simp add: Array1D_Allocate_def Array1D_empty_def if_then_def alloc_host_def
      alloc_device_def split: if_splits)

lemma EnsureSize_success:
  assumes "Array1D_EnsureSize env n t2 a1 = (cudaSuccess, a2)"
  shows "h_pointer a2 = (if t2 AND HOST \<noteq> 0 \<and> \<not> holds n (h_pointer a1)
                         then Some (replicate n None) else h_pointer a1)"
    and "d_pointer a2 = (if t2 AND DEVICE \<noteq> 0 \<and> \<not> holds n (d_pointer a1)
                         then Some (replicate n None) else d_pointer a1)"
  using assms
  by (auto simp add: Array1D_EnsureSize_def if_then_def alloc_host_def
      alloc_device_def split: if_splits)

lemma ForEach_success:
  assumes "Array1D_ForEach op n t2 a2 = (cudaSuccess, a3)"
  shows "h_pointer a3 = (if t2 AND HOST \<noteq> 0 then map_option (apply_first op n) (h_pointer a2)
                         else h_pointer a2)"
    and "d_pointer a3 = (if t2 AND DEVICE \<noteq> 0 then map_option (apply_first op n) (d_pointer a2)
                         else d_pointer a2)"
  using assms
  by (auto simp add: Array1D_ForEach_def if_then_def for_each_host_def for_each_device_def
      split: if_splits option.splits)

lemma apply_first_replicate: "apply_first (\<lambda>x. c) n (replicate n v) = replicate n (Some c)"
  by (simp add: apply_first_def map_replicate_const)

lemma length_apply_first: "length (apply_first op n xs) = length xs"
  by (simp add: apply_first_def)

lemma apply_first_const_twice:
  "n \<le> length xs \<Longrightarrow>
   apply_first (\<lambda>x. c) n (apply_first (\<lambda>x. c) n xs) = apply_first (\<lambda>x. c) n xs"
  by (simp add: apply_first_def)

text \<open>
  An array that is allocated from empty, ensured and filled holds exactly \<open>n\<close> cells
  of the fill value at every location of the fill.
\<close>

lemma array_pipeline:
  assumes "Array1D_Allocate env n t1 Array1D_empty = (cudaSuccess, a1)"
    and "Array1D_EnsureSize env n t2 a1 = (cudaSuccess, a2)"
    and "Array1D_ForEach (\<lambda>x. c) n t2 a2 = (cudaSuccess, a3)"
  shows "t2 AND HOST \<noteq> 0 \<Longrightarrow> h_pointer a3 = Some (replicate n (Some c))"
    and "t2 AND DEVICE \<noteq> 0 \<Longrightarrow> d_pointer a3 = Some (replicate n (Some c))"
  using Allocate_empty_success[OF assms(1)] EnsureSize_success[OF assms(2)]
    ForEach_success[OF assms(3)]
  by (simp_all add: holds_def apply_first_replicate)

lemma EnsureSize_settles:
  "Array1D_EnsureSize env n t (snd (Array1D_EnsureSize env n t a)) = Array1D_EnsureSize env n t a"
  by (simp add: Array1D_EnsureSize_def if_then_def alloc_host_def alloc_device_def holds_def)

lemma ForEach_const_settles:
  "Array1D_ForEach (\<lambda>x. c) n t (snd (Array1D_ForEach (\<lambda>x. c) n t a)) =
   Array1D_ForEach (\<lambda>x. c) n t a"
  by (simp add: Array1D_ForEach_def if_then_def for_each_host_def for_each_device_def
      apply_first_const_twice length_apply_first split: option.splits)

lemma EnsureSize_stable_iff:
  "Array1D_EnsureSize env n t a = (cudaSuccess, a) \<longleftrightarrow>
     (t AND HOST \<noteq> 0 \<longrightarrow> holds n (h_pointer a)) \<and> (t AND DEVICE \<noteq> 0 \<longrightarrow> holds n (d_pointer a))"
  by (cases a) (auto simp add: Array1D_EnsureSize_def if_then_def alloc_host_def alloc_device_def
      holds_def split: option.splits if_splits)

lemma holds_ForEach:
  "holds n (h_pointer (snd (Array1D_ForEach op m t a))) = holds n (h_pointer a)"
  "holds n (d_pointer (snd (Array1D_ForEach op m t a))) = holds n (d_pointer a)"
  by (auto simp add: Array1D_ForEach_def if_then_def for_each_host_def for_each_device_def
      holds_def length_apply_first split: option.splits)

lemma EnsureSize_stable_ForEach:
  "Array1D_EnsureSize env n t a = (cudaSuccess, a) \<Longrightarrow>
   Array1D_EnsureSize env n t (snd (Array1D_ForEach op n t a)) =
     (cudaSuccess, snd (Array1D_ForEach op n t a))"
  by (simp add: EnsureSize_stable_iff holds_ForEach)

section \<open>Method calls on the member arrays of a slice\<close>

lemma on_success:
  "on_degrees f ds = (cudaSuccess, ds') \<longleftrightarrow>
     (\<exists>a. f (degrees ds) = (cudaSuccess, a) \<and> ds' = ds\<lparr>degrees := a\<rparr>)"
  "on_visited f' ds = (cudaSuccess, ds') \<longleftrightarrow>
     (\<exists>a. f' (visited ds) = (cudaSuccess, a) \<and> ds' = ds\<lparr>visited := a\<rparr>)"
  "on_hrank_curr f ds = (cudaSuccess, ds') \<longleftrightarrow>
     (\<exists>a. f (hrank_curr ds) = (cudaSuccess, a) \<and> ds' = ds\<lparr>hrank_curr := a\<rparr>)"
  "on_arank_curr f ds = (cudaSuccess, ds') \<longleftrightarrow>
     (\<exists>a. f (arank_curr ds) = (cudaSuccess, a) \<and> ds' = ds\<lparr>arank_curr := a\<rparr>)"
  "on_hrank_next f ds = (cudaSuccess, ds') \<longleftrightarrow>
     (\<exists>a. f (hrank_next ds) = (cudaSuccess, a) \<and> ds' = ds\<lparr>hrank_next := a\<rparr>)"
  "on_arank_next f ds = (cudaSuccess, ds') \<longleftrightarrow>
     (\<exists>a. f (arank_next ds) = (cudaSuccess, a) \<and> ds' = ds\<lparr>arank_next := a\<rparr>)"
  "on_in_degrees f ds = (cudaSuccess, ds') \<longleftrightarrow>
     (\<exists>a. f (in_degrees ds) = (cudaSuccess, a) \<and> ds' = ds\<lparr>in_degrees := a\<rparr>)"
  "on_out_degrees f ds = (cudaSuccess, ds') \<longleftrightarrow>
     (\<exists>a. f (out_degrees ds) = (cudaSuccess, a) \<and> ds' = ds\<lparr>out_degrees := a\<rparr>)"
  by (auto simp add: on_degrees_def on_visited_def on_hrank_curr_def on_arank_curr_def
      on_hrank_next_def on_arank_next_def on_in_degrees_def on_out_degrees_def
      split: prod.splits)

lemma on_stable_iff:
  "on_degrees f s = (cudaSuccess, s) \<longleftrightarrow> f (degrees s) = (cudaSuccess, degrees s)"
  "on_visited f' s = (cudaSuccess, s) \<longleftrightarrow> f' (visited s) = (cudaSuccess, visited s)"
  "on_hrank_curr f s = (cudaSuccess, s) \<longleftrightarrow> f (hrank_curr s) = (cudaSuccess, hrank_curr s)"
  "on_arank_curr f s = (cudaSuccess, s) \<longleftrightarrow> f (arank_curr s) = (cudaSuccess, arank_curr s)"
  "on_hrank_next f s = (cudaSuccess, s) \<longleftrightarrow> f (hrank_next s) = (cudaSuccess, hrank_next s)"
  "on_arank_next f s = (cudaSuccess, s) \<longleftrightarrow> f (arank_next s) = (cudaSuccess, arank_next s)"
  "on_in_degrees f s = (cudaSuccess, s) \<longleftrightarrow> f (in_degrees s) = (cudaSuccess, in_degrees s)"
  "on_out_degrees f s = (cudaSuccess, s) \<longleftrightarrow> f (out_degrees s) = (cudaSuccess, out_degrees s)"
  by (cases s; auto simp add: on_degrees_def on_visited_def on_hrank_curr_def on_arank_curr_def
      on_hrank_next_def on_arank_next_def on_in_degrees_def on_out_degrees_def
      split: prod.splits)+

lemma snd_on:
  "snd (on_degrees f s) = s\<lparr>degrees := snd (f (degrees s))\<rparr>"
  "snd (on_visited f' s) = s\<lparr>visited := snd (f' (visited s))\<rparr>"
  "snd (on_hrank_curr f s) = s\<lparr>hrank_curr := snd (f (hrank_curr s))\<rparr>"
  "snd (on_arank_curr f s) = s\<lparr>arank_curr := snd (f (arank_curr s))\<rparr>"
  "snd (on_hrank_next f s) = s\<lparr>hrank_next := snd (f (hrank_next s))\<rparr>"
  "snd (on_arank_next f s) = s\<lparr>arank_next := snd (f (arank_next s))\<rparr>"
  "snd (on_in_degrees f s) = s\<lparr>in_degrees := snd (f (in_degrees s))\<rparr>"
  "snd (on_out_degrees f s) = s\<lparr>out_degrees := snd (f (out_degrees s))\<rparr>"
  by (simp_all add: on_degrees_def on_visited_def on_hrank_curr_def on_arank_curr_def
      on_hrank_next_def on_arank_next_def on_in_degrees_def on_out_degrees_def
      split: prod.splits)

lemma fst_on:
  "fst (on_degrees f s) = fst (f (degrees s))"
  "fst (on_visited f' s) = fst (f' (visited s))"
  "fst (on_hrank_curr f s) = fst (f (hrank_curr s))"
  "fst (on_arank_curr f s) = fst (f (arank_curr s))"
  "fst (on_hrank_next f s) = fst (f (hrank_next s))"
  "fst (on_arank_next f s) = fst (f (arank_next s))"
  "fst (on_in_degrees f s) = fst (f (in_degrees s))"
  "fst (on_out_degrees f s) = fst (f (out_degrees s))"
  by (simp_all add: on_degrees_def on_visited_def on_hrank_curr_def on_arank_curr_def
      on_hrank_next_def on_arank_next_def on_in_degrees_def on_out_degrees_def
      split: prod.splits)

lemma settles_on:
  "(\<And>a. f (snd (f a)) = f a) \<Longrightarrow> settles (on_degrees f)"
  "(\<And>a. f' (snd (f' a)) = f' a) \<Longrightarrow> settles (on_visited f')"
  "(\<And>a. f (snd (f a)) = f a) \<Longrightarrow> settles (on_hrank_curr f)"
  "(\<And>a. f (snd (f a)) = f a) \<Longrightarrow> settles (on_arank_curr f)"
  "(\<And>a. f (snd (f a)) = f a) \<Longrightarrow> settles (on_hrank_next f)"
  "(\<And>a. f (snd (f a)) = f a) \<Longrightarrow> settles (on_arank_next f)"
  "(\<And>a. f (snd (f a)) = f a) \<Longrightarrow> settles (on_in_degrees f)"
  "(\<And>a. f (snd (f a)) = f a) \<Longrightarrow> settles (on_out_degrees f)"
  unfolding settles_def on_degrees_def on_visited_def on_hrank_curr_def
      on_arank_curr_def on_hrank_next_def on_arank_next_def on_in_degrees_def
      on_out_degrees_def
  by (clarsimp split: prod.splits, metis prod.inject snd_conv)+

section \<open>Init, then Reset\<close>

lemma Init_arrays:
  assumes "DataSlice_Init env g D idx t1 flg DataSlice_new = (cudaSuccess, ds1)"
  shows "sub_graph ds1 = Some g"
    and "\<exists>a. Array1D_Allocate env (nodes g) t1 Array1D_empty = (cudaSuccess, a) \<and> degrees ds1 = a"
    and "\<exists>a. Array1D_Allocate env (nodes g) t1 Array1D_empty = (cudaSuccess, a) \<and> visited ds1 = a"
    and "\<exists>a. Array1D_Allocate env (nodes g) t1 Array1D_empty = (cudaSuccess, a) \<and> hrank_curr ds1 = a"
    and "\<exists>a. Array1D_Allocate env (nodes g) t1 Array1D_empty = (cudaSuccess, a) \<and> arank_curr ds1 = a"
    and "\<exists>a. Array1D_Allocate env (nodes g) t1 Array1D_empty = (cudaSuccess, a) \<and> hrank_next ds1 = a"
    and "\<exists>a. Array1D_Allocate env (nodes g) t1 Array1D_empty = (cudaSuccess, a) \<and> arank_next ds1 = a"
    and "\<exists>a. Array1D_Allocate env (nodes g) t1 Array1D_empty = (cudaSuccess, a) \<and> in_degrees ds1 = a"
    and "\<exists>a. Array1D_Allocate env (nodes g) t1 Array1D_empty = (cudaSuccess, a) \<and> out_degrees ds1 = a"
  using assms
  by (auto simp add: DataSlice_Init_def GUARD_CU_seq_Cons_success GUARD_CU_seq_Nil_success
      on_success BaseDataSlice_Init_def DataSlice_new_def if_then_def CsrT_Move_def
      simp del: GUARD_CU_seq.simps split: if_splits)

lemma Reset_arrays:
  assumes "DataSlice_Reset env t2 ds1 = (cudaSuccess, ds2)" and "sub_graph ds1 = Some g"
  shows "\<exists>a. Array1D_EnsureSize env (nodes g) t2 (degrees ds1) = (cudaSuccess, a) \<and>
              Array1D_ForEach (\<lambda>x. 0) (nodes g) t2 a = (cudaSuccess, degrees ds2)"
    and "\<exists>a. Array1D_EnsureSize env (nodes g) t2 (visited ds1) = (cudaSuccess, a) \<and>
              Array1D_ForEach (\<lambda>x. 0) (nodes g) t2 a = (cudaSuccess, visited ds2)"
    and "\<exists>a. Array1D_EnsureSize env (nodes g) t2 (hrank_curr ds1) = (cudaSuccess, a) \<and>
              Array1D_ForEach (\<lambda>x. 1) (nodes g) t2 a = (cudaSuccess, hrank_curr ds2)"
    and "\<exists>a. Array1D_EnsureSize env (nodes g) t2 (arank_curr ds1) = (cudaSuccess, a) \<and>
              Array1D_ForEach (\<lambda>x. 1) (nodes g) t2 a = (cudaSuccess, arank_curr ds2)"
    and "\<exists>a. Array1D_EnsureSize env (nodes g) t2 (hrank_next ds1) = (cudaSuccess, a) \<and>
              Array1D_ForEach (\<lambda>x. 0) (nodes g) t2 a = (cudaSuccess, hrank_next ds2)"
    and "\<exists>a. Array1D_EnsureSize env (nodes g) t2 (arank_next ds1) = (cudaSuccess, a) \<and>
              Array1D_ForEach (\<lambda>x. 0) (nodes g) t2 a = (cudaSuccess, arank_next ds2)"
    and "\<exists>a. Array1D_EnsureSize env (nodes g) t2 (in_degrees ds1) = (cudaSuccess, a) \<and>
              Array1D_ForEach (\<lambda>x. 0) (nodes g) t2 a = (cudaSuccess, in_degrees ds2)"
    and "\<exists>a. Array1D_EnsureSize env (nodes g) t2 (out_degrees ds1) = (cudaSuccess, a) \<and>
              Array1D_ForEach (\<lambda>x. 0) (nodes g) t2 a = (cudaSuccess, out_degrees ds2)"
  using assms
  by (auto simp add: DataSlice_Reset_def Reset_steps_def GUARD_CU_seq_Cons_success
      GUARD_CU_seq_Nil_success on_success simp del: GUARD_CU_seq.simps)

text \<open>
  C1. A slice is constructed empty, initialised for a partition of \<open>nodes g\<close> vertices
  (for any device count \<open>D\<close>, device index and location) and then reset. When both
  calls return success, at every location of the reset \<^verbatim>\<open>hrank_curr\<close> and
  \<^verbatim>\<open>arank_curr\<close> hold exactly \<open>nodes g\<close> cells, all 1, \<^verbatim>\<open>hrank_next\<close> and
  \<^verbatim>\<open>arank_next\<close> hold exactly \<open>nodes g\<close> cells, all 0, and the degree arrays and
  \<^verbatim>\<open>visited\<close> hold exactly \<open>nodes g\<close> cells, all 0.
\<close>

theorem Init_Reset_contents:
  assumes init: "DataSlice_Init env g D idx t1 flg DataSlice_new = (cudaSuccess, ds1)"
    and reset: "DataSlice_Reset env t2 ds1 = (cudaSuccess, ds2)"
    and loc: "loc = HOST \<or> loc = DEVICE" and incl: "t2 AND loc \<noteq> 0"
  shows "GetPointer loc (hrank_curr ds2) = Some (replicate (nodes g) (Some 1)) \<and>
         GetPointer loc (arank_curr ds2) = Some (replicate (nodes g) (Some 1)) \<and>
         GetPointer loc (hrank_next ds2) = Some (replicate (nodes g) (Some 0)) \<and>
         GetPointer loc (arank_next ds2) = Some (replicate (nodes g) (Some 0)) \<and>
         GetPointer loc (degrees ds2) = Some (replicate (nodes g) (Some 0)) \<and>
         GetPointer loc (visited ds2) = Some (replicate (nodes g) (Some 0)) \<and>
         GetPointer loc (in_degrees ds2) = Some (replicate (nodes g) (Some 0)) \<and>
         GetPointer loc (out_degrees ds2) = Some (replicate (nodes g) (Some 0))"
proof -
  note I = Init_arrays[OF init]
  note R = Reset_arrays[OF reset I(1)]
  from loc show ?thesis
  proof
    assume h: "loc = HOST"
    with incl have t: "t2 AND HOST \<noteq> 0" by simp
    have "h_pointer (hrank_curr ds2) = Some (replicate (nodes g) (Some 1))"
      using I(4) R(3) t by (metis array_pipeline(1))
    moreover have "h_pointer (arank_curr ds2) = Some (replicate (nodes g) (Some 1))"
      using I(5) R(4) t by (metis array_pipeline(1))
    moreover have "h_pointer (hrank_next ds2) = Some (replicate (nodes g) (Some 0))"
      using I(6) R(5) t by (metis array_pipeline(1))
    moreover have "h_pointer (arank_next ds2) = Some (replicate (nodes g) (Some 0))"
      using I(7) R(6) t by (metis array_pipeline(1))
    moreover have "h_pointer (degrees ds2) = Some (replicate (nodes g) (Some 0))"
      using I(2) R(1) t by (metis array_pipeline(1))
    moreover have "h_pointer (visited ds2) = Some (replicate (nodes g) (Some 0))"
      using I(3) R(2) t by (metis array_pipeline(1))
    moreover have "h_pointer (in_degrees ds2) = Some (replicate (nodes g) (Some 0))"
      using I(8) R(7) t by (metis array_pipeline(1))
    moreover have "h_pointer (out_degrees ds2) = Some (replicate (nodes g) (Some 0))"
      using I(9) R(8) t by (metis array_pipeline(1))
    ultimately show ?thesis unfolding h GetPointer_HOST by simp
  next
    assume d: "loc = DEVICE"
    with incl have t: "t2 AND DEVICE \<noteq> 0" by simp
    have "d_pointer (hrank_curr ds2) = Some (replicate (nodes g) (Some 1))"
      using I(4) R(3) t by (metis array_pipeline(2))
    moreover have "d_pointer (arank_curr ds2) = Some (replicate (nodes g) (Some 1))"
      using I(5) R(4) t by (metis array_pipeline(2))
    moreover have "d_pointer (hrank_next ds2) = Some (replicate (nodes g) (Some 0))"
      using I(6) R(5) t by (metis array_pipeline(2))
    moreover have "d_pointer (arank_next ds2) = Some (replicate (nodes g) (Some 0))"
      using I(7) R(6) t by (metis array_pipeline(2))
    moreover have "d_pointer (degrees ds2) = Some (replicate (nodes g) (Some 0))"
      using I(2) R(1) t by (metis array_pipeline(2))
    moreover have "d_pointer (visited ds2) = Some (replicate (nodes g) (Some 0))"
      using I(3) R(2) t by (metis array_pipeline(2))
    moreover have "d_pointer (in_degrees ds2) = Some (replicate (nodes g) (Some 0))"
      using I(8) R(7) t by (metis array_pipeline(2))
    moreover have "d_pointer (out_degrees ds2) = Some (replicate (nodes g) (Some 0))"
      using I(9) R(8) t by (metis array_pipeline(2))
    ultimately show ?thesis unfolding d GetPointer_DEVICE by simp
  qed
qed

lemmas on_defs = on_degrees_def on_visited_def on_hrank_curr_def on_arank_curr_def
  on_hrank_next_def on_arank_next_def on_in_degrees_def on_out_degrees_def

lemma Init_g3: "fst (DataSlice_Init env_ok g3 1 0 DEVICE 0 DataSlice_new) = cudaSuccess"
  by (simp add: DataSlice_Init_def BaseDataSlice_Init_def DataSlice_new_def on_defs
      Array1D_Allocate_def Array1D_empty_def if_then_def alloc_host_def alloc_device_def
      CsrT_Move_def env_ok_def g3_def DEVICE_def HOST_def)

lemma Reset_g3:
  "fst (DataSlice_Reset env_ok DEVICE (snd (DataSlice_Init env_ok g3 1 0 DEVICE 0 DataSlice_new)))
     = cudaSuccess"
  by (simp add: DataSlice_Init_def BaseDataSlice_Init_def DataSlice_new_def on_defs
      Array1D_Allocate_def Array1D_empty_def if_then_def alloc_host_def alloc_device_def
      CsrT_Move_def env_ok_def g3_def DEVICE_def HOST_def
      DataSlice_Reset_def Reset_steps_def Array1D_EnsureSize_def Array1D_ForEach_def holds_def
      for_each_host_def for_each_device_def apply_first_def)

theorem Init_Reset_contents_witness:
  "fst (DataSlice_Init env_ok g3 1 0 DEVICE 0 DataSlice_new) = cudaSuccess \<and>
   fst (DataSlice_Reset env_ok DEVICE (snd (DataSlice_Init env_ok g3 1 0 DEVICE 0 DataSlice_new)))
     = cudaSuccess \<and>
   DEVICE AND DEVICE \<noteq> 0 \<and>
   GetPointer DEVICE (hrank_curr (slice_of g3 0)) = Some [Some 1, Some 1, Some 1] \<and>
   GetPointer DEVICE (arank_curr (slice_of g3 0)) = Some [Some 1, Some 1, Some 1] \<and>
   GetPointer DEVICE (hrank_next (slice_of g3 0)) = Some [Some 0, Some 0, Some 0] \<and>
   GetPointer DEVICE (arank_next (slice_of g3 0)) = Some [Some 0, Some 0, Some 0] \<and>
   GetPointer DEVICE (degrees (slice_of g3 0)) = Some [Some 0, Some 0, Some 0] \<and>
   GetPointer DEVICE (visited (slice_of g3 0)) = Some [Some 0, Some 0, Some 0] \<and>
   GetPointer DEVICE (in_degrees (slice_of g3 0)) = Some [Some 0, Some 0, Some 0] \<and>
   GetPointer DEVICE (out_degrees (slice_of g3 0)) = Some [Some 0, Some 0, Some 0]"
proof -
  have i: "DataSlice_Init env_ok g3 1 0 DEVICE 0 DataSlice_new =
      (cudaSuccess, snd (DataSlice_Init env_ok g3 1 0 DEVICE 0 DataSlice_new))"
    using Init_g3 by (metis prod.collapse)
  have r: "DataSlice_Reset env_ok DEVICE (snd (DataSlice_Init env_ok g3 1 0 DEVICE 0 DataSlice_new))
      = (cudaSuccess, slice_of g3 0)"
    using Reset_g3 unfolding slice_of_def by (metis prod.collapse)
  have d: "DEVICE AND DEVICE \<noteq> 0" by (simp add: DEVICE_def)
  have n: "replicate (nodes g3) x = [x, x, x]" for x :: "'a option"
    by (simp add: g3_def numeral_3_eq_3)
  show ?thesis
    using Init_Reset_contents[OF i r _ d] Init_g3 Reset_g3 d by (simp add: n)
qed

section \<open>Init and Reset succeed when the allocations do\<close>

lemma on_eq:
  "on_degrees f s = (fst (f (degrees s)), s\<lparr>degrees := snd (f (degrees s))\<rparr>)"
  "on_visited f' s = (fst (f' (visited s)), s\<lparr>visited := snd (f' (visited s))\<rparr>)"
  "on_hrank_curr f s = (fst (f (hrank_curr s)), s\<lparr>hrank_curr := snd (f (hrank_curr s))\<rparr>)"
  "on_arank_curr f s = (fst (f (arank_curr s)), s\<lparr>arank_curr := snd (f (arank_curr s))\<rparr>)"
  "on_hrank_next f s = (fst (f (hrank_next s)), s\<lparr>hrank_next := snd (f (hrank_next s))\<rparr>)"
  "on_arank_next f s = (fst (f (arank_next s)), s\<lparr>arank_next := snd (f (arank_next s))\<rparr>)"
  "on_in_degrees f s = (fst (f (in_degrees s)), s\<lparr>in_degrees := snd (f (in_degrees s))\<rparr>)"
  "on_out_degrees f s = (fst (f (out_degrees s)), s\<lparr>out_degrees := snd (f (out_degrees s))\<rparr>)"
  by (simp_all add: on_defs split: prod.splits)

lemma Allocate_ok:
  "host_alloc_ok env n \<Longrightarrow> device_alloc_ok env n \<Longrightarrow>
   fst (Array1D_Allocate env n t a) = cudaSuccess"
  by (simp add: Array1D_Allocate_def if_then_def alloc_host_def alloc_device_def)

lemma EnsureSize_ok:
  "host_alloc_ok env n \<Longrightarrow> device_alloc_ok env n \<Longrightarrow>
   fst (Array1D_EnsureSize env n t a) = cudaSuccess"
  by (simp add: Array1D_EnsureSize_def if_then_def alloc_host_def alloc_device_def)

lemma EnsureSize_holds:
  assumes "host_alloc_ok env n" and "device_alloc_ok env n"
  shows "t AND HOST \<noteq> 0 \<Longrightarrow> holds n (h_pointer (snd (Array1D_EnsureSize env n t a)))"
    and "t AND DEVICE \<noteq> 0 \<Longrightarrow> holds n (d_pointer (snd (Array1D_EnsureSize env n t a)))"
  using assms
  by (simp_all add: Array1D_EnsureSize_def if_then_def alloc_host_def alloc_device_def holds_def)

lemma ForEach_ok:
  "(t AND HOST \<noteq> 0 \<longrightarrow> holds n (h_pointer a)) \<Longrightarrow>
   (t AND DEVICE \<noteq> 0 \<longrightarrow> holds n (d_pointer a)) \<Longrightarrow>
   fst (Array1D_ForEach op n t a) = cudaSuccess"
  by (auto simp add: Array1D_ForEach_def if_then_def for_each_host_def for_each_device_def
      holds_def split: option.splits)

lemma ForEach_after_EnsureSize:
  "host_alloc_ok env n \<Longrightarrow> device_alloc_ok env n \<Longrightarrow>
   fst (Array1D_ForEach op n t (snd (Array1D_EnsureSize env n t a))) = cudaSuccess"
  by (rule ForEach_ok) (simp_all add: EnsureSize_holds)

lemma Init_succeeds:
  assumes "host_alloc_ok env (nodes g)" and "device_alloc_ok env (nodes g)" and "memcpy_ok env"
  shows "fst (DataSlice_Init env g D idx t flg ds) = cudaSuccess"
  using assms
  by (simp add: DataSlice_Init_def BaseDataSlice_Init_def on_eq Allocate_ok if_then_def
      CsrT_Move_def)

lemma Reset_succeeds:
  assumes "sub_graph ds = Some g"
    and "host_alloc_ok env (nodes g)" and "device_alloc_ok env (nodes g)"
  shows "fst (DataSlice_Reset env t ds) = cudaSuccess"
  using assms
  by (simp add: DataSlice_Reset_def Reset_steps_def on_eq EnsureSize_ok
      ForEach_after_EnsureSize)

lemma Init_sub_graph:
  assumes "host_alloc_ok env (nodes g)" and "device_alloc_ok env (nodes g)" and "memcpy_ok env"
  shows "sub_graph (snd (DataSlice_Init env g D idx t flg ds)) = Some g"
  using assms
  by (simp add: DataSlice_Init_def BaseDataSlice_Init_def on_eq Allocate_ok if_then_def
      CsrT_Move_def)

text \<open>
  When the allocations of \<open>nodes g\<close> cells succeed and the transfers complete, \<open>Init\<close>
  and the \<open>Reset\<close> that follows both return success, for any locations.
\<close>

lemma Init_Reset_succeed:
  assumes "host_alloc_ok env (nodes g)" and "device_alloc_ok env (nodes g)" and "memcpy_ok env"
  shows "fst (DataSlice_Init env g D idx t1 flg ds) = cudaSuccess"
    and "fst (DataSlice_Reset env t2 (snd (DataSlice_Init env g D idx t1 flg ds))) = cudaSuccess"
  using Init_succeeds[OF assms] Reset_succeeds[OF Init_sub_graph[OF assms] assms(1,2)]
  by simp_all

section \<open>Reset twice\<close>

lemma Reset_steps_settle: "\<forall>f \<in> set (Reset_steps env n t). settles f"
  by (simp add: Reset_steps_def settles_on EnsureSize_settles ForEach_const_settles)

lemma Reset_steps_keep: "later_keep (Reset_steps env n t)"
  by (simp add: Reset_steps_def on_stable_iff snd_on EnsureSize_stable_ForEach)

lemma Reset_steps_sub_graph:
  "sub_graph (snd (GUARD_CU_seq (Reset_steps env n t) ds)) = sub_graph ds"
  by (rule GUARD_CU_seq_frame) (simp add: Reset_steps_def snd_on)

text \<open>
  C5. For every slice and every location, a second \<open>Reset\<close> right after a first
  returns the status of the first and leaves the slice, with all eight arrays, exactly
  as the first left it. No \<open>Init\<close> is needed in between: when the first call
  succeeds, so does the second.
\<close>

theorem Reset_idempotent:
  "DataSlice_Reset env target (snd (DataSlice_Reset env target ds)) =
   DataSlice_Reset env target ds"
proof (cases "sub_graph ds")
  case None
  then show ?thesis by (simp add: DataSlice_Reset_def)
next
  case (Some g)
  have "sub_graph (snd (GUARD_CU_seq (Reset_steps env (nodes g) target) ds)) = Some g"
    using Some by (simp add: Reset_steps_sub_graph)
  then show ?thesis
    using Some GUARD_CU_seq_settles[OF Reset_steps_settle Reset_steps_keep]
    by (simp add: DataSlice_Reset_def)
qed

section \<open>Release twice\<close>

lemma Release_result:
  "DataSlice_Release env t ds =
     (if t AND DEVICE \<noteq> 0 \<and> \<not> SetDevice_ok env (gpu_idx ds) then (DeviceSelectionFailure, ds)
      else (cudaSuccess,
            ds\<lparr>degrees := snd (Array1D_Release t (degrees ds)),
               visited := snd (Array1D_Release t (visited ds)),
               hrank_curr := snd (Array1D_Release t (hrank_curr ds)),
               arank_curr := snd (Array1D_Release t (arank_curr ds)),
               hrank_next := snd (Array1D_Release t (hrank_next ds)),
               arank_next := snd (Array1D_Release t (arank_next ds)),
               in_degrees := snd (Array1D_Release t (in_degrees ds)),
               out_degrees := snd (Array1D_Release t (out_degrees ds))\<rparr>))"
  by (simp add: DataSlice_Release_def on_defs if_then_def SetDevice_def
      BaseDataSlice_Release_def Array1D_Release_def)

lemma Release_Release_array:
  "snd (Array1D_Release t (snd (Array1D_Release t a))) = snd (Array1D_Release t a)"
  by (simp add: Array1D_Release_def)

lemma GetPointer_Release:
  "loc = HOST \<or> loc = DEVICE \<Longrightarrow> t AND loc \<noteq> 0 \<Longrightarrow>
   GetPointer loc (snd (Array1D_Release t a)) = None"
  by (auto simp add: Array1D_Release_def GetPointer_def)

text \<open>
  C4, as the claim states it, fails: \<open>Release\<close> with a target that includes the device
  first selects the slice's device and returns the failure of that selection. On a
  machine without a GPU the default call \<open>Release(LOCATION_ALL)\<close> on a fresh slice
  fails.
\<close>

theorem Release_fails_without_device:
  "fst (DataSlice_Release env_no_gpu LOCATION_ALL DataSlice_new) = DeviceSelectionFailure"
  by (simp add: Release_result env_no_gpu_def env_ok_def LOCATION_ALL_def DEVICE_def)

text \<open>
  C4, amended. For every slice and every target location such that the target leaves
  out the device or the slice's device can be selected: \<open>Release\<close> succeeds; a second
  \<open>Release\<close> succeeds too and leaves the slice exactly as the first left it (nothing
  is freed a second time); and after the first \<open>Release\<close> every array reads back as a
  null pointer at each released location.
\<close>

theorem Release_twice:
  assumes "target AND DEVICE = 0 \<or> SetDevice_ok env (gpu_idx ds)"
    and "loc = HOST \<or> loc = DEVICE" and "target AND loc \<noteq> 0"
  shows "fst (DataSlice_Release env target ds) = cudaSuccess \<and>
         DataSlice_Release env target (snd (DataSlice_Release env target ds)) =
           (cudaSuccess, snd (DataSlice_Release env target ds)) \<and>
         released_at loc (snd (DataSlice_Release env target ds))"
  using assms
  by (auto simp add: Release_result Release_Release_array released_at_def GetPointer_Release)

theorem Release_twice_witness:
  "SetDevice_ok env_ok (gpu_idx (slice_of g3 0)) \<and> LOCATION_ALL AND DEVICE \<noteq> 0 \<and>
   fst (DataSlice_Release env_ok LOCATION_ALL (slice_of g3 0)) = cudaSuccess \<and>
   DataSlice_Release env_ok LOCATION_ALL
       (snd (DataSlice_Release env_ok LOCATION_ALL (slice_of g3 0))) =
     (cudaSuccess, snd (DataSlice_Release env_ok LOCATION_ALL (slice_of g3 0))) \<and>
   released_at DEVICE (snd (DataSlice_Release env_ok LOCATION_ALL (slice_of g3 0)))"
proof -
  have "gpu_idx (slice_of g3 0) = 0"
    unfolding slice_of_def DataSlice_Reset_def
    by (simp add: DataSlice_Init_def BaseDataSlice_Init_def DataSlice_new_def on_defs
      Array1D_Allocate_def Array1D_empty_def if_then_def alloc_host_def alloc_device_def
      CsrT_Move_def env_ok_def g3_def DEVICE_def HOST_def
      Reset_steps_def Array1D_EnsureSize_def Array1D_ForEach_def holds_def
      for_each_host_def for_each_device_def apply_first_def)
  then have ok: "SetDevice_ok env_ok (gpu_idx (slice_of g3 0))" by (simp add: env_ok_def)
  have d: "LOCATION_ALL AND DEVICE \<noteq> 0" by (simp add: LOCATION_ALL_def DEVICE_def)
  show ?thesis
    using Release_twice[of LOCATION_ALL env_ok "slice_of g3 0" DEVICE] ok d by simp
qed

section \<open>Problem::Reset\<close>

lemma Problem_data_slices_same: "data_slices p = v \<Longrightarrow> p\<lparr>data_slices := v\<rparr> = p"
  by (cases p) simp

lemma Reset_gpu_at:
  assumes "data_slices p = Some xs" and "gpu < length xs" and "gpu < length (problem_gpu_idx p)"
  shows "Reset_gpu env target gpu p =
           (fst (Reset_holder env target (problem_gpu_idx p ! gpu) (xs ! gpu)),
            p\<lparr>data_slices :=
                Some (xs[gpu := snd (Reset_holder env target (problem_gpu_idx p ! gpu) (xs ! gpu))])\<rparr>)"
  using assms
  by (auto simp add: Reset_gpu_def Reset_holder_def if_then_def SetDevice_gpu_def SetDevice_def
      at_slice_def Problem_data_slices_same split: prod.splits)

lemma update_prefix:
  assumes "j < length xs"
  shows "(map R [0..<j] @ drop j xs)[j := R j] = map R [0..<Suc j] @ drop (Suc j) xs"
proof -
  have "drop j xs = xs ! j # drop (Suc j) xs" using assms by (simp add: Cons_nth_drop_Suc)
  then show ?thesis by (simp add: list_update_append)
qed

lemma nth_prefix: "j < length xs \<Longrightarrow> (map R [0..<j] @ drop j xs) ! j = xs ! j"
  by (simp add: nth_append)

text \<open>One turn of the loop, from the state the earlier turns left.\<close>

lemma Reset_gpu_step:
  assumes "length xs = num_gpus p" and "length (problem_gpu_idx p) = num_gpus p"
    and "j < num_gpus p"
  shows "Reset_gpu env target j (reset_upto env target p xs j) =
           (fst (Reset_holder env target (problem_gpu_idx p ! j) (xs ! j)),
            reset_upto env target p xs (Suc j))"
proof -
  let ?R = "\<lambda>i. snd (Reset_holder env target (problem_gpu_idx p ! i) (xs ! i))"
  let ?st = "reset_upto env target p xs j"
  have "Reset_gpu env target j ?st =
      (fst (Reset_holder env target (problem_gpu_idx ?st ! j) ((map ?R [0..<j] @ drop j xs) ! j)),
       ?st\<lparr>data_slices := Some ((map ?R [0..<j] @ drop j xs)
          [j := snd (Reset_holder env target (problem_gpu_idx ?st ! j)
                       ((map ?R [0..<j] @ drop j xs) ! j))])\<rparr>)"
    using assms by (intro Reset_gpu_at) (simp_all add: reset_upto_def)
  moreover have "problem_gpu_idx ?st = problem_gpu_idx p" by (simp add: reset_upto_def)
  moreover have "(map ?R [0..<j] @ drop j xs) ! j = xs ! j"
    using assms by (simp add: nth_prefix)
  ultimately show ?thesis
    using assms update_prefix[of j xs ?R] by (simp add: reset_upto_def)
qed

text \<open>The turns from \<open>j\<close> up to \<open>m\<close>, when each of them succeeds.\<close>

lemma Reset_loop:
  assumes "length xs = num_gpus p" and "length (problem_gpu_idx p) = num_gpus p"
    and "m \<le> num_gpus p" and "j \<le> m"
    and "\<forall>i. j \<le> i \<and> i < m \<longrightarrow>
           fst (Reset_holder env target (problem_gpu_idx p ! i) (xs ! i)) = cudaSuccess"
  shows "GUARD_CU_seq (map (Reset_gpu env target) [j..<m] @ rest) (reset_upto env target p xs j) =
         GUARD_CU_seq rest (reset_upto env target p xs m)"
  using assms(4,5)
proof (induction "m - j" arbitrary: j)
  case 0
  then show ?case by simp
next
  case (Suc d)
  then have lt: "j < m" and d: "d = m - Suc j" by simp_all
  have jN: "j < num_gpus p" using lt assms(3) by simp
  have up: "[j..<m] = j # [Suc j..<m]" using lt by (simp add: upt_conv_Cons)
  have ok: "fst (Reset_holder env target (problem_gpu_idx p ! j) (xs ! j)) = cudaSuccess"
    using Suc.prems(2) lt by simp
  have "GUARD_CU_seq (map (Reset_gpu env target) [Suc j..<m] @ rest)
          (reset_upto env target p xs (Suc j)) =
        GUARD_CU_seq rest (reset_upto env target p xs m)"
    using Suc.hyps(1)[OF d] lt Suc.prems(2) by simp
  then show ?case
    using Reset_gpu_step[OF assms(1,2) jN, of env target] ok by (simp add: up)
qed

lemma reset_upto_0: "data_slices p = Some xs \<Longrightarrow> reset_upto env target p xs 0 = p"
  by (simp add: reset_upto_def Problem_data_slices_same)

text \<open>When the body succeeds for every device, every slice is reset and the call ends with the barrier.\<close>

lemma Problem_Reset_all:
  assumes "data_slices p = Some xs"
    and "length xs = num_gpus p" and "length (problem_gpu_idx p) = num_gpus p"
    and "\<forall>i < num_gpus p.
           fst (Reset_holder env target (problem_gpu_idx p ! i) (xs ! i)) = cudaSuccess"
  shows "Problem_Reset env target p =
           (if DeviceSynchronize_ok env then cudaSuccess else TransferFailure,
            reset_upto env target p xs (num_gpus p))"
  using Reset_loop[OF assms(2,3), of "num_gpus p" 0 env target "[cudaDeviceSynchronize env]"]
    assms(4) reset_upto_0[OF assms(1), of env target]
  by (simp add: Problem_Reset_def cudaDeviceSynchronize_def)

text \<open>
  C6. The loop of \<^verbatim>\<open>Problem::Reset\<close> takes the devices in ascending order and stops
  at the first failure. When the body succeeds for the devices \<open>0, .., k - 1\<close> and
  fails for device \<open>k\<close>, the call returns the failure of device \<open>k\<close>; the slices
  \<open>0, .., k - 1\<close> are as their reset leaves them, slice \<open>k\<close> is as its failed reset
  leaves it, and the slices after \<open>k\<close> are untouched.
\<close>

theorem Problem_Reset_fails_fast:
  assumes ds: "data_slices p = Some xs"
    and len: "length xs = num_gpus p" "length (problem_gpu_idx p) = num_gpus p"
    and k: "k < num_gpus p"
    and ok: "\<forall>i<k. fst (Reset_holder env target (problem_gpu_idx p ! i) (xs ! i)) = cudaSuccess"
    and fail: "fst (Reset_holder env target (problem_gpu_idx p ! k) (xs ! k)) \<noteq> cudaSuccess"
  shows "Problem_Reset env target p =
           (fst (Reset_holder env target (problem_gpu_idx p ! k) (xs ! k)),
            p\<lparr>data_slices :=
                Some (map (\<lambda>i. snd (Reset_holder env target (problem_gpu_idx p ! i) (xs ! i)))
                        [0..<Suc k] @ drop (Suc k) xs)\<rparr>)"
proof -
  let ?rest = "Reset_gpu env target k #
               (map (Reset_gpu env target) [Suc k..<num_gpus p] @ [cudaDeviceSynchronize env])"
  have split: "map (Reset_gpu env target) [0..<num_gpus p] @ [cudaDeviceSynchronize env] =
               map (Reset_gpu env target) [0..<k] @ ?rest"
  proof -
    have "[0..<num_gpus p] = [0..<k] @ [k..<num_gpus p]"
      using k upt_add_eq_append[of 0 k "num_gpus p - k"] by simp
    moreover have "[k..<num_gpus p] = k # [Suc k..<num_gpus p]"
      using k by (simp add: upt_conv_Cons)
    ultimately show ?thesis by simp
  qed
  have "Problem_Reset env target p = GUARD_CU_seq ?rest (reset_upto env target p xs k)"
    using Reset_loop[OF len, of k 0 env target ?rest] k ok reset_upto_0[OF ds, of env target]
    by (simp add: Problem_Reset_def split)
  then show ?thesis
    using Reset_gpu_step[OF len k, of env target] fail by (simp add: reset_upto_def)
qed

section \<open>The concrete objects\<close>

lemma slice_of_eq:
  "slice_of g idx =
     \<lparr>gpu_idx = idx, sub_graph = Some g,
      degrees = \<lparr>h_pointer = None, d_pointer = Some (replicate (nodes g) (Some 0))\<rparr>,
      visited = \<lparr>h_pointer = None, d_pointer = Some (replicate (nodes g) (Some 0))\<rparr>,
      hrank_curr = \<lparr>h_pointer = None, d_pointer = Some (replicate (nodes g) (Some 1))\<rparr>,
      arank_curr = \<lparr>h_pointer = None, d_pointer = Some (replicate (nodes g) (Some 1))\<rparr>,
      hrank_next = \<lparr>h_pointer = None, d_pointer = Some (replicate (nodes g) (Some 0))\<rparr>,
      arank_next = \<lparr>h_pointer = None, d_pointer = Some (replicate (nodes g) (Some 0))\<rparr>,
      in_degrees = \<lparr>h_pointer = None, d_pointer = Some (replicate (nodes g) (Some 0))\<rparr>,
      out_degrees = \<lparr>h_pointer = None, d_pointer = Some (replicate (nodes g) (Some 0))\<rparr>,
      maxIter = None\<rparr>"
  by (simp add: slice_of_def DataSlice_Init_def BaseDataSlice_Init_def DataSlice_new_def on_defs
      Array1D_Allocate_def Array1D_empty_def if_then_def alloc_host_def alloc_device_def
      CsrT_Move_def env_ok_def DEVICE_def HOST_def
      DataSlice_Reset_def Reset_steps_def Array1D_EnsureSize_def Array1D_ForEach_def holds_def
      for_each_host_def for_each_device_def apply_first_def map_replicate_const)

lemma DEVICE_neq_0: "DEVICE \<noteq> 0"
  by (simp add: DEVICE_def)

lemma Reset_slice_of:
  "DataSlice_Reset env DEVICE (slice_of g idx) = (cudaSuccess, slice_of g idx)"
  by (simp add: slice_of_eq on_defs if_then_def DEVICE_def HOST_def
      DataSlice_Reset_def Reset_steps_def Array1D_EnsureSize_def Array1D_ForEach_def holds_def
      for_each_host_def for_each_device_def apply_first_def map_replicate_const)

lemma Reset_init_slice:
  "DataSlice_Reset env DEVICE (init_slice g idx) = (cudaSuccess, slice_of g idx)"
  by (simp add: slice_of_eq init_slice_def DataSlice_Init_def BaseDataSlice_Init_def
      DataSlice_new_def on_defs Array1D_Allocate_def Array1D_empty_def if_then_def
      alloc_host_def alloc_device_def CsrT_Move_def env_ok_def DEVICE_def HOST_def
      DataSlice_Reset_def Reset_steps_def Array1D_EnsureSize_def Array1D_ForEach_def holds_def
      for_each_host_def for_each_device_def apply_first_def map_replicate_const)

lemma Reset_holder_init:
  "Reset_holder env DEVICE idx (init_holder (init_slice g idx')) =
     (if \<not> SetDevice_ok env idx then (DeviceSelectionFailure, init_holder (init_slice g idx'))
      else if \<not> memcpy_ok env
        then (TransferFailure, init_holder (slice_of g idx'))
      else (cudaSuccess, holder_of (slice_of g idx')))"
  by (simp add: Reset_holder_def if_then_def SetDevice_def arrow_def holder_of_def
      init_holder_def Reset_init_slice Array1D_Move_def move_to_device_def copy_cells_def
      DEVICE_neq_0)

text \<open>
  On a machine that has GPU 0 only, the reset of a problem of two GPUs resets the
  slice of device 0 and fails at device 1, whose slice it leaves as it was.
\<close>

theorem Problem_Reset_fails_fast_witness:
  "fst (Reset_holder env_one_gpu DEVICE 0 (init_holder (init_slice g2 0))) = cudaSuccess \<and>
   fst (Reset_holder env_one_gpu DEVICE 1 (init_holder (init_slice g2 1)))
     = DeviceSelectionFailure \<and>
   Problem_Reset env_one_gpu DEVICE P2_init =
     (DeviceSelectionFailure,
      P2_init\<lparr>data_slices :=
                 Some [holder_of (slice_of g2 0), init_holder (init_slice g2 1)]\<rparr>)"
proof -
  have ds: "data_slices P2_init =
      Some [init_holder (init_slice g2 0), init_holder (init_slice g2 1)]"
    by (simp add: P2_init_def)
  have e: "SetDevice_ok env_one_gpu 0" "\<not> SetDevice_ok env_one_gpu 1" "memcpy_ok env_one_gpu"
    by (simp_all add: env_one_gpu_def env_ok_def)
  have up: "[0..<Suc 1] = [0, 1]" by (simp add: upt_rec)
  show ?thesis
    using Problem_Reset_fails_fast[OF ds, of 1 env_one_gpu DEVICE] e up
    by (simp add: Reset_holder_init P2_init_def)
qed

section \<open>Problem::Release\<close>

lemma holder_Release_result:
  "holder_Release env t a =
     (cudaSuccess,
      \<lparr>h_pointer = (if t AND HOST \<noteq> 0 then None else h_pointer a),
       d_pointer =
         (if t AND DEVICE \<noteq> 0 then None
          else if t AND HOST \<noteq> 0 \<and> h_pointer a \<noteq> None
            then map_option (map (map_option (DataSlice_destructor env))) (d_pointer a)
          else d_pointer a)\<rparr>)"
  by (simp add: holder_Release_def Array1D_Release_def)

lemma holder_Release_device_side:
  "GetPointer DEVICE (snd (holder_Release env t a)) = None \<longleftrightarrow>
     t AND DEVICE \<noteq> 0 \<or> GetPointer DEVICE a = None"
  by (simp add: holder_Release_result GetPointer_DEVICE)

lemma at_slice_Release:
  assumes "data_slices p = Some ys" and "j < length ys"
  shows "at_slice j (holder_Release env t) p =
           (cudaSuccess, p\<lparr>data_slices := Some (ys[j := snd (holder_Release env t (ys ! j))])\<rparr>)"
  using assms by (simp add: at_slice_def holder_Release_result)

text \<open>The loop of \<^verbatim>\<open>Problem::Release\<close> from \<open>j\<close> up to \<open>m\<close>: it cannot fail.\<close>

lemma Release_loop:
  assumes "m \<le> length xs" and "j \<le> m"
  shows "GUARD_CU_seq (map (\<lambda>i. at_slice i (holder_Release env t)) [j..<m] @ rest)
           (p\<lparr>data_slices :=
               Some (map (\<lambda>i. snd (holder_Release env t (xs ! i))) [0..<j] @ drop j xs)\<rparr>) =
         GUARD_CU_seq rest
           (p\<lparr>data_slices :=
               Some (map (\<lambda>i. snd (holder_Release env t (xs ! i))) [0..<m] @ drop m xs)\<rparr>)"
  using assms(2)
proof (induction "m - j" arbitrary: j)
  case 0
  then show ?case by simp
next
  case (Suc d)
  then have lt: "j < m" and d: "d = m - Suc j" by simp_all
  let ?R = "\<lambda>i. snd (holder_Release env t (xs ! i))"
  let ?ys = "map ?R [0..<j] @ drop j xs"
  have jl: "j < length xs" using lt assms(1) by simp
  have up: "[j..<m] = j # [Suc j..<m]" using lt by (simp add: upt_conv_Cons)
  have step: "at_slice j (holder_Release env t) (p\<lparr>data_slices := Some ?ys\<rparr>) =
      (cudaSuccess, p\<lparr>data_slices := Some (map ?R [0..<Suc j] @ drop (Suc j) xs)\<rparr>)"
    using at_slice_Release[of "p\<lparr>data_slices := Some ?ys\<rparr>" ?ys j env t] jl
      update_prefix[OF jl, of ?R] nth_prefix[OF jl, of ?R]
    by simp
  show ?case
    using Suc.hyps(1)[OF d] lt step by (simp add: up del: upt_Suc)
qed

lemma map_nth_all: "map (\<lambda>i. f (xs ! i)) [0..<length xs] = map f xs"
proof -
  have "map (\<lambda>i. f (xs ! i)) [0..<length xs] = map f (map ((!) xs) [0..<length xs])"
    by (simp add: comp_def)
  then show ?thesis by (simp only: map_nth)
qed

lemma Release_loop_all:
  assumes "data_slices p = Some xs" and "length xs = num_gpus p"
  shows "GUARD_CU_seq (map (\<lambda>i. at_slice i (holder_Release env t)) [0..<num_gpus p] @ rest) p =
         GUARD_CU_seq rest
           (p\<lparr>data_slices := Some (map (\<lambda>a. snd (holder_Release env t a)) xs)\<rparr>)"
proof -
  have "map (\<lambda>i. snd (holder_Release env t (xs ! i))) [0..<num_gpus p] =
        map (\<lambda>a. snd (holder_Release env t a)) xs"
    using map_nth_all[of "\<lambda>a. snd (holder_Release env t a)" xs] assms(2) by simp
  then show ?thesis
    using Release_loop[of "num_gpus p" xs 0 env t rest p] assms
    by (simp add: Problem_data_slices_same)
qed

text \<open>
  What \<open>Release\<close> returns on a problem with its array of holders, one per device and
  at least one device.
\<close>

lemma Problem_Release_result:
  assumes "data_slices p = Some xs" and "length xs = num_gpus p" and "0 < num_gpus p"
  shows "Problem_Release env target p =
           (cudaSuccess,
            if target AND HOST \<noteq> 0 \<and>
               (target AND DEVICE \<noteq> 0 \<or> GetPointer DEVICE (xs ! 0) = None)
            then p\<lparr>data_slices := None\<rparr>
            else p\<lparr>data_slices := Some (map (\<lambda>a. snd (holder_Release env target a)) xs)\<rparr>)"
proof -
  obtain a rest where xs: "xs = a # rest" using assms(2,3) by (cases xs) auto
  show ?thesis
    using assms(1) Release_loop_all[OF assms(1,2), of env target]
    by (auto simp add: Problem_Release_def delete_data_slices_def BaseProblem_Release_def
        holder_Release_result GetPointer_DEVICE xs)
qed



lemma Problem_Reset_P2_init: "Problem_Reset env_ok DEVICE P2_init = (cudaSuccess, P2)"
proof -
  have ds: "data_slices P2_init =
      Some [init_holder (init_slice g2 0), init_holder (init_slice g2 1)]"
    by (simp add: P2_init_def)
  have up: "[0..<2] = [0, Suc 0]" by (simp add: upt_rec)
  have ok: "\<forall>i < num_gpus P2_init.
      fst (Reset_holder env_ok DEVICE (problem_gpu_idx P2_init ! i)
             ([init_holder (init_slice g2 0), init_holder (init_slice g2 1)] ! i)) = cudaSuccess"
    by (simp add: P2_init_def Reset_holder_init env_ok_def less_Suc_eq numeral_2_eq_2)
  show ?thesis
    using Problem_Reset_all[OF ds _ _ ok]
    by (simp add: P2_init_def P2_def reset_upto_def Reset_holder_init env_ok_def up)
qed

section \<open>The problems that Init, Reset and Release produce\<close>

lemma snd_at_slice:
  "snd (at_slice i f p) =
     (case data_slices p of
        None \<Rightarrow> p
      | Some xs \<Rightarrow> if i < length xs then p\<lparr>data_slices := Some (xs[i := snd (f (xs ! i))])\<rparr> else p)"
  by (simp add: at_slice_def split: option.splits prod.splits)

lemma snd_SetDevice_gpu: "snd (if_then c (SetDevice_gpu env gpu) p) = p"
  by (simp add: if_then_def SetDevice_gpu_def SetDevice_def)

lemma first_then_all: "first_on_device p \<Longrightarrow> device_copies_from_0 p"
  by (auto simp add: first_on_device_def device_copies_from_0_def
      split: option.splits list.splits)

lemma others_off_then_all: "others_off_device p \<Longrightarrow> device_copies_from_0 p"
  by (auto simp add: others_off_device_def device_copies_from_0_def
      split: option.splits list.splits)

lemma all_off_then_all: "all_off_device p \<Longrightarrow> device_copies_from_0 p"
  by (auto simp add: all_off_device_def device_copies_from_0_def
      split: option.splits list.splits)

text \<open>A call on the holder of a later device leaves the holder of device 0 alone.\<close>

lemma at_slice_keeps_first:
  "0 < i \<Longrightarrow> first_on_device p \<Longrightarrow> first_on_device (snd (at_slice i f p))"
  by (cases i)
     (auto simp add: snd_at_slice first_on_device_def split: option.splits list.splits)

lemma at_slice_grows_first:
  assumes "\<And>a. GetPointer DEVICE a \<noteq> None \<Longrightarrow> GetPointer DEVICE (snd (f a)) \<noteq> None"
    and "first_on_device p"
  shows "first_on_device (snd (at_slice i f p))"
  using assms
  by (cases i) (auto simp add: snd_at_slice first_on_device_def split: option.splits list.splits)

lemma at_slice_0_keeps_others:
  "others_off_device p \<Longrightarrow> others_off_device (snd (at_slice 0 f p))"
  by (auto simp add: snd_at_slice others_off_device_def split: option.splits list.splits)

lemma at_slice_0_grows:
  assumes "\<And>a. GetPointer DEVICE a \<noteq> None \<Longrightarrow> GetPointer DEVICE (snd (f a)) \<noteq> None"
    and "device_copies_from_0 p"
  shows "device_copies_from_0 (snd (at_slice 0 f p))"
  using assms
  by (auto simp add: snd_at_slice device_copies_from_0_def split: option.splits list.splits)

lemma list_all_update_same:
  assumes "j < length xs \<Longrightarrow> P v = P (xs ! j)"
  shows "list_all P (xs[j := v]) = list_all P xs"
proof (cases "j < length xs")
  case False
  then show ?thesis by (simp add: list_update_beyond not_less)
next
  case True
  have "P (xs[j := v] ! k) = P (xs ! k)" if "k < length xs" for k
    using that assms True by (cases "k = j") simp_all
  then show ?thesis by (simp add: list_all_length)
qed

lemma at_slice_same_nullness:
  assumes same: "\<And>a. (GetPointer DEVICE (snd (f a)) = None) = (GetPointer DEVICE a = None)"
    and inv: "device_copies_from_0 p"
  shows "device_copies_from_0 (snd (at_slice i f p))"
proof (cases "data_slices p")
  case None
  then show ?thesis using inv by (simp add: snd_at_slice)
next
  case (Some xs)
  show ?thesis
  proof (cases xs)
    case Nil
    then show ?thesis using inv Some by (simp add: snd_at_slice)
  next
    case (Cons a rest)
    show ?thesis
    proof (cases i)
      case 0
      then show ?thesis
        using inv Some Cons same[of a]
        by (auto simp add: snd_at_slice device_copies_from_0_def)
    next
      case (Suc j)
      have "list_all (\<lambda>b. GetPointer DEVICE b = None) (rest[j := snd (f (rest ! j))]) =
            list_all (\<lambda>b. GetPointer DEVICE b = None) rest"
        by (rule list_all_update_same) (simp add: same)
      then show ?thesis
        using inv Some Cons Suc
        by (auto simp add: snd_at_slice device_copies_from_0_def)
    qed
  qed
qed

lemma at_slice_keeps_all_off:
  assumes "\<And>a. GetPointer DEVICE a = None \<Longrightarrow> GetPointer DEVICE (snd (f a)) = None"
    and "all_off_device p"
  shows "all_off_device (snd (at_slice i f p))"
  using assms
  by (auto simp add: snd_at_slice all_off_device_def list_all_length nth_list_update
      split: option.splits)


text \<open>What the calls on a holder do to its device side.\<close>

lemma arrow_device_side: "GetPointer DEVICE (snd (arrow f a)) = GetPointer DEVICE a"
  by (simp add: arrow_def GetPointer_DEVICE split: option.splits list.splits prod.splits)

lemma arrow_success_host_side:
  "arrow f a = (cudaSuccess, a') \<Longrightarrow> GetPointer HOST a' \<noteq> None"
  by (auto simp add: arrow_def GetPointer_HOST split: option.splits list.splits prod.splits)

lemma Move_device_side_grows:
  "GetPointer DEVICE a \<noteq> None \<Longrightarrow> GetPointer DEVICE (snd (Array1D_Move env HOST target a)) \<noteq> None"
  by (auto simp add: Array1D_Move_def move_to_device_def GetPointer_DEVICE DEVICE_neq_HOST[symmetric]
      split: option.splits)

lemma Move_host_only:
  "target AND DEVICE = 0 \<Longrightarrow> snd (Array1D_Move env HOST target a) = a"
  by (simp add: Array1D_Move_def DEVICE_neq_HOST[symmetric])

lemma Move_success_device_side:
  assumes "target AND DEVICE \<noteq> 0" and "GetPointer HOST a \<noteq> None"
    and "Array1D_Move env HOST target a = (cudaSuccess, a')"
  shows "GetPointer DEVICE a' \<noteq> None"
  using assms
  by (auto simp add: Array1D_Move_def move_to_device_def GetPointer_DEVICE GetPointer_HOST
      split: option.splits if_splits)

lemma holder_Allocate_host_only:
  "target AND DEVICE = 0 \<Longrightarrow>
   GetPointer DEVICE (snd (holder_Allocate env n target a)) = GetPointer DEVICE a"
  by (simp add: holder_Allocate_def Array1D_Allocate_def if_then_def alloc_host_def
      GetPointer_DEVICE split: prod.splits)

lemma holder_Allocate_success_device_side:
  assumes "target AND DEVICE \<noteq> 0" and "holder_Allocate env n target a = (cudaSuccess, a')"
  shows "GetPointer DEVICE a' \<noteq> None"
  using assms
  by (auto simp add: holder_Allocate_def Array1D_Allocate_def if_then_def alloc_host_def
      alloc_device_def GetPointer_DEVICE split: prod.splits if_splits)

lemma at_slice_success:
  assumes "at_slice i f p = (cudaSuccess, p')"
  shows "\<exists>xs a'. data_slices p = Some xs \<and> i < length xs \<and> f (xs ! i) = (cudaSuccess, a') \<and>
                 p' = p\<lparr>data_slices := Some (xs[i := a'])\<rparr>"
  using assms by (auto simp add: at_slice_def split: option.splits if_splits prod.splits)

text \<open>
  A run whose first step establishes a property that the later steps keep: the state
  it ends in is as a failed first step leaves it, or has the property.
\<close>

lemma GUARD_CU_seq_first_then:
  assumes "J s" and keep: "\<And>s. J s \<Longrightarrow> J (snd (f s))"
    and est: "\<And>s s'. J s \<Longrightarrow> f s = (cudaSuccess, s') \<Longrightarrow> Q s'"
    and rest: "\<forall>g \<in> set gs. \<forall>s. Q s \<longrightarrow> Q (snd (g s))"
  shows "J (snd (GUARD_CU_seq (f # gs) s)) \<or> Q (snd (GUARD_CU_seq (f # gs) s))"
proof -
  obtain r s1 where f: "f s = (r, s1)" by (cases "f s")
  show ?thesis
  proof (cases "r = cudaSuccess")
    case False
    then show ?thesis using f keep[OF assms(1)] by simp
  next
    case True
    then have "Q s1" using est[OF assms(1)] f by simp
    then have "Q (snd (GUARD_CU_seq gs s1))" using GUARD_CU_seq_keeps[OF rest] by simp
    then show ?thesis using f True by simp
  qed
qed

section \<open>Reset keeps the shape\<close>

lemma Reset_gpu_keeps_first:
  "first_on_device p \<Longrightarrow> first_on_device (snd (Reset_gpu env target i p))"
  unfolding Reset_gpu_def
  by (rule GUARD_CU_seq_keeps[where P = first_on_device])
     (simp_all add: snd_SetDevice_gpu at_slice_grows_first arrow_device_side
        Move_device_side_grows)

lemma Reset_gpu_0_keeps:
  "device_copies_from_0 p \<Longrightarrow> device_copies_from_0 (snd (Reset_gpu env target 0 p))"
  unfolding Reset_gpu_def
  by (rule GUARD_CU_seq_keeps[where P = device_copies_from_0])
     (simp_all add: snd_SetDevice_gpu at_slice_0_grows arrow_device_side Move_device_side_grows)

lemma Reset_gpu_host_only:
  "target AND DEVICE = 0 \<Longrightarrow> device_copies_from_0 p \<Longrightarrow>
   device_copies_from_0 (snd (Reset_gpu env target i p))"
  unfolding Reset_gpu_def
  by (rule GUARD_CU_seq_keeps[where P = device_copies_from_0])
     (simp_all add: snd_SetDevice_gpu at_slice_same_nullness arrow_device_side Move_host_only)

lemma Reset_gpu_0_success:
  assumes dev: "target AND DEVICE \<noteq> 0" and inv: "device_copies_from_0 p"
    and ok: "Reset_gpu env target 0 p = (cudaSuccess, p')"
  shows "first_on_device p'"
proof -
  from ok obtain p1 p2 where
    1: "if_then (target AND DEVICE \<noteq> 0) (SetDevice_gpu env 0) p = (cudaSuccess, p1)" and
    2: "at_slice 0 (arrow (DataSlice_Reset env target)) p1 = (cudaSuccess, p2)" and
    3: "at_slice 0 (Array1D_Move env HOST target) p2 = (cudaSuccess, p')"
    unfolding Reset_gpu_def
    by (auto simp add: GUARD_CU_seq_Cons_success GUARD_CU_seq_Nil_success
        simp del: GUARD_CU_seq.simps)
  have p1: "p1 = p" using 1 snd_SetDevice_gpu[of "target AND DEVICE \<noteq> 0" env 0 p] by simp
  from at_slice_success[OF 2] obtain xs a2 where
    xs: "data_slices p1 = Some xs" "0 < length xs"
      "arrow (DataSlice_Reset env target) (xs ! 0) = (cudaSuccess, a2)"
      "p2 = p1\<lparr>data_slices := Some (xs[0 := a2])\<rparr>"
    by blast
  from at_slice_success[OF 3] obtain ys a3 where
    ys: "data_slices p2 = Some ys" "0 < length ys"
      "Array1D_Move env HOST target (ys ! 0) = (cudaSuccess, a3)"
      "p' = p2\<lparr>data_slices := Some (ys[0 := a3])\<rparr>"
    by blast
  have y0: "ys ! 0 = a2" using xs ys by (cases xs) auto
  have "GetPointer DEVICE a3 \<noteq> None"
    using Move_success_device_side[OF dev _ ys(3)] arrow_success_host_side[OF xs(3)] y0 by simp
  moreover have "length xs = num_gpus p"
    using inv xs(1) p1 by (simp add: device_copies_from_0_def)
  ultimately show ?thesis
    using xs ys p1 by (cases xs) (auto simp add: first_on_device_def)
qed

lemma cudaDeviceSynchronize_snd: "snd (cudaDeviceSynchronize env s) = s"
  by (simp add: cudaDeviceSynchronize_def)

text \<open>\<^verbatim>\<open>Problem::Reset\<close> keeps the shape, however it ends.\<close>

lemma Problem_Reset_keeps:
  assumes inv: "device_copies_from_0 p"
  shows "device_copies_from_0 (snd (Problem_Reset env target p))"
proof (cases "target AND DEVICE = 0")
  case True
  show ?thesis
    unfolding Problem_Reset_def
    by (rule GUARD_CU_seq_keeps[where P = device_copies_from_0])
       (auto simp add: Reset_gpu_host_only[OF True] cudaDeviceSynchronize_snd inv)
next
  case False
  show ?thesis
  proof (cases "num_gpus p")
    case 0
    then show ?thesis using inv by (simp add: Problem_Reset_def cudaDeviceSynchronize_def)
  next
    case (Suc n)
    have up: "[0..<num_gpus p] = 0 # [Suc 0..<num_gpus p]"
      using Suc by (simp add: upt_conv_Cons)
    have rest: "\<forall>g \<in> set (map (Reset_gpu env target) [Suc 0..<num_gpus p] @
                             [cudaDeviceSynchronize env]).
                  \<forall>s. first_on_device s \<longrightarrow> first_on_device (snd (g s))"
      by (auto simp add: Reset_gpu_keeps_first cudaDeviceSynchronize_snd)
    have "device_copies_from_0 (snd (Problem_Reset env target p)) \<or>
          first_on_device (snd (Problem_Reset env target p))"
      unfolding Problem_Reset_def up list.map append_Cons
      by (rule GUARD_CU_seq_first_then[where J = device_copies_from_0 and Q = first_on_device])
         (simp_all add: inv rest Reset_gpu_0_keeps Reset_gpu_0_success[OF False]
            del: upt_Suc set_upt set_map set_append)
    then show ?thesis using first_then_all by blast
  qed
qed


section \<open>Release and Extract keep the shape\<close>

lemma Problem_Release_keeps:
  assumes inv: "device_copies_from_0 p"
  shows "device_copies_from_0 (snd (Problem_Release env target p))"
proof (cases "data_slices p")
  case None
  then show ?thesis using inv by (simp add: Problem_Release_def)
next
  case (Some xs)
  have len: "length xs = num_gpus p" using inv Some by (simp add: device_copies_from_0_def)
  show ?thesis
  proof (cases xs)
    case Nil
    then have "num_gpus p = 0" using len by simp
    then show ?thesis
      using inv Some Nil
      by (simp add: Problem_Release_def delete_data_slices_def BaseProblem_Release_def)
  next
    case (Cons a rest)
    then have pos: "0 < num_gpus p" using len by auto
    have null: "(GetPointer DEVICE (snd (holder_Release env target b)) = None) =
                (target AND DEVICE \<noteq> 0 \<or> GetPointer DEVICE b = None)" for b
      by (rule holder_Release_device_side)
    show ?thesis
      unfolding Problem_Release_result[OF Some len pos]
      using inv Some Cons
      by (auto simp add: device_copies_from_0_def list_all_iff null)
  qed
qed

lemma Problem_Extract_keeps:
  assumes inv: "device_copies_from_0 p"
  shows "device_copies_from_0 (fst (snd (Problem_Extract env h_degrees target p)))"
  using inv
  by (auto simp add: Problem_Extract_def with_data_slice_def SetDevice_gpu_def SetDevice_def
      device_copies_from_0_def GetPointer_DEVICE
      split: option.splits list.splits prod.splits if_splits)

section \<open>Init produces the shape\<close>

lemma OR_HOST_AND_DEVICE: "(target OR HOST) AND DEVICE = target AND DEVICE"
  by (simp add: HOST_def DEVICE_def bit.conj_disj_distrib2)

lemma Init_slice_snd:
  "snd (if gpu < length (sub_graphs p) \<and> gpu < length (problem_gpu_idx p)
        then at_slice gpu (arrow F) p else (IllegalAddress, p)) =
   (if gpu < length (sub_graphs p) \<and> gpu < length (problem_gpu_idx p)
    then snd (at_slice gpu (arrow F) p) else p)"
  by simp

lemma Init_gpu_keeps_first:
  assumes "0 < i" and "first_on_device p"
  shows "first_on_device (snd (Init_gpu env target i p))"
  unfolding Init_gpu_def
  by (rule GUARD_CU_seq_keeps[where P = first_on_device])
     (simp_all add: snd_SetDevice_gpu at_slice_keeps_first assms)

lemma Init_gpu_0_keeps_others:
  assumes "others_off_device p"
  shows "others_off_device (snd (Init_gpu env target 0 p))"
  unfolding Init_gpu_def
  by (rule GUARD_CU_seq_keeps[where P = others_off_device])
     (simp_all add: snd_SetDevice_gpu at_slice_0_keeps_others assms)

lemma Init_gpu_host_only:
  assumes "target AND DEVICE = 0" and "all_off_device p"
  shows "all_off_device (snd (Init_gpu env target i p))"
  unfolding Init_gpu_def
  by (rule GUARD_CU_seq_keeps[where P = all_off_device])
     (simp_all add: snd_SetDevice_gpu at_slice_keeps_all_off arrow_device_side
        holder_Allocate_host_only OR_HOST_AND_DEVICE assms)

lemma Init_gpu_0_success:
  assumes dev: "target AND DEVICE \<noteq> 0" and inv: "others_off_device p"
    and ok: "Init_gpu env target 0 p = (cudaSuccess, p')"
  shows "first_on_device p'"
proof -
  from ok obtain p1 p2 where
    1: "if_then (target AND DEVICE \<noteq> 0) (SetDevice_gpu env 0) p = (cudaSuccess, p1)" and
    2: "at_slice 0 (holder_Allocate env 1 (target OR HOST)) p1 = (cudaSuccess, p2)" and
    3: "(if 0 < length (sub_graphs p2) \<and> 0 < length (problem_gpu_idx p2)
         then at_slice 0
                (arrow (DataSlice_Init env (sub_graphs p2 ! 0) (int (num_gpus p2))
                          (problem_gpu_idx p2 ! 0) target (flag p2))) p2
         else (IllegalAddress, p2)) = (cudaSuccess, p')"
    unfolding Init_gpu_def
    by (auto simp add: GUARD_CU_seq_Cons_success GUARD_CU_seq_Nil_success
        simp del: GUARD_CU_seq.simps)
  let ?F = "DataSlice_Init env (sub_graphs p2 ! 0) (int (num_gpus p2))
              (problem_gpu_idx p2 ! 0) target (flag p2)"
  have 3: "at_slice 0 (arrow ?F) p2 = (cudaSuccess, p')"
    using 3 by (simp split: if_splits)
  have p1: "p1 = p" using 1 snd_SetDevice_gpu[of "target AND DEVICE \<noteq> 0" env 0 p] by simp
  from at_slice_success[OF 2] obtain xs a2 where
    xs: "data_slices p1 = Some xs" "0 < length xs"
      "holder_Allocate env 1 (target OR HOST) (xs ! 0) = (cudaSuccess, a2)"
      "p2 = p1\<lparr>data_slices := Some (xs[0 := a2])\<rparr>"
    by blast
  from at_slice_success[OF 3] obtain ys a3 where
    ys: "data_slices p2 = Some ys" "0 < length ys"
      "arrow ?F (ys ! 0) = (cudaSuccess, a3)"
      "p' = p2\<lparr>data_slices := Some (ys[0 := a3])\<rparr>"
    by blast
  have y0: "ys ! 0 = a2" using xs ys by (cases xs) auto
  have "GetPointer DEVICE a2 \<noteq> None"
    using holder_Allocate_success_device_side[OF _ xs(3)] dev by (simp add: OR_HOST_AND_DEVICE)
  then have "GetPointer DEVICE a3 \<noteq> None"
    using arrow_device_side[of ?F a2] ys(3) y0 by simp
  moreover have "length xs = num_gpus p"
    using inv xs(1) p1 by (auto simp add: others_off_device_def split: list.splits)
  ultimately show ?thesis
    using xs ys p1 by (cases xs) (auto simp add: first_on_device_def)
qed

text \<open>
  \<^verbatim>\<open>Problem::Init\<close> produces the shape, however it ends, from a problem that has it
  (a problem before its first \<open>Init\<close>, whose \<^verbatim>\<open>data_slices\<close> is null, has it).
\<close>

lemma Problem_Init_keeps:
  assumes inv: "device_copies_from_0 p"
  shows "device_copies_from_0 (snd (Problem_Init env g target p))"
proof (cases "length (sub_graphs p) = num_gpus p")
  case False
  then show ?thesis using inv by (simp add: Problem_Init_def BaseProblem_Init_def)
next
  case True
  let ?s0 = "p\<lparr>org_graph := Some g,
                data_slices := Some (replicate (num_gpus p) Array1D_empty)\<rparr>"
  have run: "Problem_Init env g target p =
             GUARD_CU_seq (map (Init_gpu env target) [0..<num_gpus p]) ?s0"
    using True by (simp add: Problem_Init_def BaseProblem_Init_def)
  have off: "all_off_device ?s0"
    by (simp add: all_off_device_def list_all_iff Array1D_empty_def GetPointer_DEVICE)
  have n: "num_gpus ?s0 = num_gpus p" by simp
  show ?thesis
  proof (cases "target AND DEVICE = 0")
    case host: True
    have "all_off_device (snd (GUARD_CU_seq (map (Init_gpu env target) [0..<num_gpus p]) ?s0))"
      by (rule GUARD_CU_seq_keeps[where P = all_off_device])
         (auto simp add: Init_gpu_host_only[OF host] off)
    then show ?thesis using run all_off_then_all by simp
  next
    case dev: False
    show ?thesis
    proof (cases "num_gpus p")
      case 0
      then show ?thesis using run off all_off_then_all[of ?s0] by simp
    next
      case (Suc k)
      have up: "[0..<num_gpus p] = 0 # [Suc 0..<num_gpus p]"
        using Suc by (simp add: upt_conv_Cons)
      have others: "others_off_device ?s0"
        using Suc
        by (simp add: others_off_device_def list_all_iff Array1D_empty_def GetPointer_DEVICE)
      have rest: "\<forall>f \<in> set (map (Init_gpu env target) [Suc 0..<num_gpus p]).
                    \<forall>s. first_on_device s \<longrightarrow> first_on_device (snd (f s))"
        by (auto simp add: Init_gpu_keeps_first)
      have "others_off_device (snd (Problem_Init env g target p)) \<or>
            first_on_device (snd (Problem_Init env g target p))"
        unfolding run up list.map
        by (rule GUARD_CU_seq_first_then[where J = others_off_device and Q = first_on_device])
           (simp_all add: others rest Init_gpu_0_keeps_others Init_gpu_0_success[OF dev]
              del: upt_Suc set_upt set_map)
      then show ?thesis using first_then_all others_off_then_all by blast
    qed
  qed
qed

text \<open>
  The problem of two GPUs, from its constructor: \<open>Init\<close> on the device succeeds and
  gives the problem on which \<open>Reset\<close> was run above.
\<close>

lemma DataSlice_Init_count:
  "DataSlice_Init env g n idx target flg ds = DataSlice_Init env g m idx target flg ds"
  by (simp add: DataSlice_Init_def BaseDataSlice_Init_def)

lemma Problem_Init_P2_new: "Problem_Init env_ok g4 DEVICE P2_new = (cudaSuccess, P2_init)"
proof -
  have up: "[0..<2] = [0, Suc 0]" by (simp add: upt_rec)
  have e: "SetDevice_ok env_ok 0" "SetDevice_ok env_ok 1" by (simp_all add: env_ok_def)
  have l: "DEVICE OR HOST = 3" "(3::Location) AND HOST \<noteq> 0" "(3::Location) AND DEVICE \<noteq> 0"
    by (simp_all add: DEVICE_def HOST_def)
  have ok: "fst (DataSlice_Init env_ok g2 n idx DEVICE 0 ds) = cudaSuccess" for n idx ds
    by (rule Init_succeeds) (simp_all add: env_ok_def)
  have i: "DataSlice_Init env_ok g2 2 idx DEVICE 0 DataSlice_new =
           (cudaSuccess, init_slice g2 idx)" for idx
    using ok[of 2 idx DataSlice_new] DataSlice_Init_count[of env_ok g2 2 idx DEVICE 0 DataSlice_new 1]
    by (simp add: init_slice_def prod_eq_iff)
  have a: "holder_Allocate env_ok (Suc 0) (DEVICE OR HOST) Array1D_empty =
           (cudaSuccess, \<lparr>h_pointer = Some [Some DataSlice_new], d_pointer = Some [None]\<rparr>)"
    by (simp add: holder_Allocate_def Array1D_Allocate_def if_then_def alloc_host_def
        alloc_device_def Array1D_empty_def env_ok_def l)
  have s0: "Init_gpu env_ok DEVICE 0
              (P2_new\<lparr>org_graph := Some g4, data_slices := Some [Array1D_empty, Array1D_empty]\<rparr>) =
            (cudaSuccess,
             P2_new\<lparr>org_graph := Some g4,
                    data_slices := Some [init_holder (init_slice g2 0), Array1D_empty]\<rparr>)"
    by (simp add: P2_new_def Init_gpu_def if_then_def SetDevice_gpu_def SetDevice_def
        at_slice_def arrow_def a i e init_holder_def DEVICE_neq_0)
  have s1: "Init_gpu env_ok DEVICE (Suc 0)
              (P2_new\<lparr>org_graph := Some g4,
                     data_slices := Some [init_holder (init_slice g2 0), Array1D_empty]\<rparr>) =
            (cudaSuccess,
             P2_new\<lparr>org_graph := Some g4,
                    data_slices :=
                      Some [init_holder (init_slice g2 0), init_holder (init_slice g2 1)]\<rparr>)"
    using e
    by (simp add: P2_new_def Init_gpu_def if_then_def SetDevice_gpu_def SetDevice_def
        at_slice_def arrow_def a i init_holder_def DEVICE_neq_0)
  have b: "BaseProblem_Init g4 DEVICE P2_new = (cudaSuccess, P2_new\<lparr>org_graph := Some g4\<rparr>)"
    by (simp add: BaseProblem_Init_def P2_new_def)
  have n: "num_gpus (P2_new\<lparr>org_graph := Some g4\<rparr>) = 2" by (simp add: P2_new_def)
  have r: "replicate 2 x = [x, x]" for x :: "DataSlice Array1D"
    by (simp add: numeral_2_eq_2)
  have "Problem_Init env_ok g4 DEVICE P2_new =
        (cudaSuccess,
         P2_new\<lparr>org_graph := Some g4,
                data_slices :=
                  Some [init_holder (init_slice g2 0), init_holder (init_slice g2 1)]\<rparr>)"
    by (simp add: Problem_Init_def b n up r s0 s1)
  then show ?thesis by (simp add: P2_new_def P2_init_def)
qed


section \<open>Every problem of the lifecycle has the shape\<close>

lemma lifecycle_shape: "lifecycle p \<Longrightarrow> device_copies_from_0 p"
proof (induction rule: lifecycle.induct)
  case (constructed p)
  then show ?case by (simp add: device_copies_from_0_def)
next
  case (Init p env g target)
  then show ?case by (simp add: Problem_Init_keeps)
next
  case (Reset p env target)
  then show ?case by (simp add: Problem_Reset_keeps)
next
  case (Extract p env h_degrees target)
  then show ?case by (simp add: Problem_Extract_keeps)
next
  case (Release p env target)
  then show ?case by (simp add: Problem_Release_keeps)
qed

lemma lifecycle_P2: "lifecycle P2"
proof -
  have "lifecycle P2_new" by (rule lifecycle.constructed) (simp add: P2_new_def)
  then have "lifecycle (snd (Problem_Init env_ok g4 DEVICE P2_new))" by (rule lifecycle.Init)
  then have "lifecycle (snd (Problem_Reset env_ok DEVICE P2_init))"
    using lifecycle.Reset[of P2_init env_ok DEVICE] by (simp add: Problem_Init_P2_new)
  then show ?thesis by (simp add: Problem_Reset_P2_init)
qed


section \<open>What Problem::Release releases\<close>




text \<open>
  C9. On a problem whose \<^verbatim>\<open>data_slices\<close> is null (\<open>Init\<close> was never called)
  \<open>Release\<close> returns success at once, for every target, and leaves the problem as it
  is: no slice is visited and nothing is freed.
\<close>

theorem Problem_Release_before_Init:
  "Problem_Release env target (p\<lparr>data_slices := None\<rparr>) = (cudaSuccess, p\<lparr>data_slices := None\<rparr>)"
  by (simp add: Problem_Release_def)

section \<open>Problem::Extract\<close>

text \<open>
  C10. On an initialised problem of one GPU, \<open>Extract\<close> with a target that is neither
  exactly \<open>DEVICE\<close> nor exactly \<open>HOST\<close> returns success and leaves the caller's buffer
  (and the problem) unchanged: neither copy branch is taken.
\<close>

theorem Extract_other_target:
  assumes "num_gpus p = 1" and "org_graph p = Some g" and "data_slices p = Some (a # rest)"
    and "target \<noteq> DEVICE" and "target \<noteq> HOST"
  shows "Problem_Extract env h_degrees target p = (cudaSuccess, p, h_degrees)"
  using assms by (simp add: Problem_Extract_def)

theorem Extract_other_target_witness:
  "LOCATION_ALL \<noteq> DEVICE \<and> LOCATION_ALL \<noteq> HOST \<and>
   Problem_Extract env_ok [None, Some 7] LOCATION_ALL P1 = (cudaSuccess, P1, [None, Some 7]) \<and>
   DEVICE OR HOST \<noteq> DEVICE \<and> DEVICE OR HOST \<noteq> HOST \<and>
   Problem_Extract env_ok [None, Some 7] (DEVICE OR HOST) P1 = (cudaSuccess, P1, [None, Some 7])"
proof -
  have l: "LOCATION_ALL \<noteq> DEVICE" "LOCATION_ALL \<noteq> HOST"
    "DEVICE OR HOST \<noteq> DEVICE" "DEVICE OR HOST \<noteq> HOST"
    by (simp_all add: LOCATION_ALL_def DEVICE_def HOST_def)
  have p: "num_gpus P1 = 1" "org_graph P1 = Some g2"
    "data_slices P1 = Some (holder_of (slice_of g2 0) # [])"
    by (simp_all add: P1_def)
  show ?thesis
    using Extract_other_target[OF p l(1,2), of env_ok "[None, Some 7]"]
      Extract_other_target[OF p l(3,4), of env_ok "[None, Some 7]"] l
    by simp
qed

lemma map2_first: "length xs = length ys \<Longrightarrow> map2 (\<lambda>a b. a) xs ys = xs"
  by (induction xs ys rule: list_induct2) simp_all

lemma Extract_rank_copies:
  assumes "memcpy_ok env" and "d_pointer a = Some cells" and "length cells \<le> length h"
  shows "\<exists>a'. Extract_rank env h a = (cudaSuccess, a', cells @ drop (length cells) h)"
  using assms
  by (simp add: Extract_rank_def Array1D_SetPointer_def Array1D_Move_def move_to_host_def
      DEVICE_neq_HOST HOST_neq_0 write_back_def copy_cells_def)

text \<open>
  \<^verbatim>\<open>HITSProblem::Extract\<close> on one GPU: the device sides of \<^verbatim>\<open>hrank_curr\<close> and
  \<^verbatim>\<open>arank_curr\<close> are copied, cell for cell, to the front of the two buffers.
\<close>

lemma HITSProblem_Extract_copies:
  assumes "hits_num_gpus hp = 1" and "hits_gpu_idx hp = idx # idxs" and "SetDevice_ok env idx"
    and "memcpy_ok env"
    and "hits_data_slices hp = Some (Some hds # hrest)"
    and "d_pointer (hits_hrank_curr hds) = Some hr" and "d_pointer (hits_arank_curr hds) = Some ar"
    and "length hr \<le> length h_hrank" and "length ar \<le> length h_arank"
  shows "\<exists>hp'. HITSProblem_Extract env h_hrank h_arank hp =
           (cudaSuccess, hp', hr @ drop (length hr) h_hrank, ar @ drop (length ar) h_arank)"
proof -
  obtain a1 where 1: "Extract_rank env h_hrank (hits_hrank_curr hds) =
      (cudaSuccess, a1, hr @ drop (length hr) h_hrank)"
    using Extract_rank_copies[OF assms(4) assms(6) assms(8)] by blast
  obtain a2 where 2: "Extract_rank env h_arank (hits_arank_curr hds) =
      (cudaSuccess, a2, ar @ drop (length ar) h_arank)"
    using Extract_rank_copies[OF assms(4) assms(7) assms(9)] by blast
  show ?thesis
    using assms(1,2,3,5) 1 2
    by (simp add: HITSProblem_Extract_def cudaSetDevice_gpu_def SetDevice_def)
qed

text \<open>
  \<^verbatim>\<open>Problem::Extract\<close> on one GPU copies the \<^verbatim>\<open>degrees\<close> array: its device side when
  the target is \<open>DEVICE\<close>, its host side when the target is \<open>HOST\<close>.
\<close>

lemma Problem_Extract_DEVICE_copies:
  assumes "num_gpus p = 1" and "org_graph p = Some g" and "problem_gpu_idx p = idx # idxs"
    and "SetDevice_ok env idx" and "memcpy_ok env"
    and "data_slices p = Some (a # rest)" and "h_pointer a = Some (Some ds # others)"
    and "d_pointer (degrees ds) = Some dg" and "length dg = nodes g"
    and "nodes g \<le> length h_degrees"
  shows "\<exists>p'. Problem_Extract env h_degrees DEVICE p =
           (cudaSuccess, p', dg @ drop (nodes g) h_degrees)"
  using assms
  by (simp add: Problem_Extract_def SetDevice_gpu_def SetDevice_def with_data_slice_def
      Extract_DEVICE_def on_degrees_def Array1D_SetPointer_def Array1D_Move_def move_to_host_def
      DEVICE_neq_HOST HOST_neq_0 write_back_def copy_cells_def)

lemma Problem_Extract_HOST_copies:
  assumes "num_gpus p = 1" and "org_graph p = Some g"
    and "data_slices p = Some (a # rest)" and "h_pointer a = Some (Some ds # others)"
    and "h_pointer (degrees ds) = Some dg" and "nodes g \<le> length dg"
    and "nodes g \<le> length h_degrees"
  shows "\<exists>p'. Problem_Extract env h_degrees HOST p =
           (cudaSuccess, p', take (nodes g) dg @ drop (nodes g) h_degrees)"
  using assms
  by (simp add: Problem_Extract_def with_data_slice_def DEVICE_neq_HOST[symmetric]
      Extract_HOST_def Array1D_ForEach2_def map2_first)

lemma host_slice_of_eq:
  "host_slice_of g idx =
     \<lparr>gpu_idx = idx, sub_graph = Some g,
      degrees = \<lparr>h_pointer = Some (replicate (nodes g) (Some 0)), d_pointer = None\<rparr>,
      visited = \<lparr>h_pointer = Some (replicate (nodes g) (Some 0)), d_pointer = None\<rparr>,
      hrank_curr = \<lparr>h_pointer = Some (replicate (nodes g) (Some 1)), d_pointer = None\<rparr>,
      arank_curr = \<lparr>h_pointer = Some (replicate (nodes g) (Some 1)), d_pointer = None\<rparr>,
      hrank_next = \<lparr>h_pointer = Some (replicate (nodes g) (Some 0)), d_pointer = None\<rparr>,
      arank_next = \<lparr>h_pointer = Some (replicate (nodes g) (Some 0)), d_pointer = None\<rparr>,
      in_degrees = \<lparr>h_pointer = Some (replicate (nodes g) (Some 0)), d_pointer = None\<rparr>,
      out_degrees = \<lparr>h_pointer = Some (replicate (nodes g) (Some 0)), d_pointer = None\<rparr>,
      maxIter = None\<rparr>"
  by (simp add: host_slice_of_def DataSlice_Init_def BaseDataSlice_Init_def DataSlice_new_def
      on_defs Array1D_Allocate_def Array1D_empty_def if_then_def alloc_host_def alloc_device_def
      CsrT_Move_def env_ok_def DEVICE_def HOST_def
      DataSlice_Reset_def Reset_steps_def Array1D_EnsureSize_def Array1D_ForEach_def holds_def
      for_each_host_def for_each_device_def apply_first_def map_replicate_const)

text \<open>
  \<^verbatim>\<open>HITSProblem::Extract\<close> on a machine whose device can be selected: the ranks
  \<open>i * 0.5\<close> seeded on the device arrive in the caller's buffers.
\<close>

lemma HITSProblem_Extract_HP1:
  "HITSProblem_Extract env_ok [None, None, None] [None, None, None] HP1 =
     (cudaSuccess,
      HP1\<lparr>hits_data_slices :=
            Some [Some (hits_slice
              \<lparr>hits_hrank_curr := \<lparr>h_pointer = Some [Some 0, Some (1/2), Some 1],
                                   d_pointer = Some [Some 0, Some (1/2), Some 1]\<rparr>,
               hits_arank_curr := \<lparr>h_pointer = Some [Some 1, Some (3/2), Some 2],
                                   d_pointer = Some [Some 1, Some (3/2), Some 2]\<rparr>\<rparr>)]\<rparr>,
      [Some 0, Some (1/2), Some 1], [Some 1, Some (3/2), Some 2])"
  by (simp add: HITSProblem_Extract_def cudaSetDevice_gpu_def SetDevice_def HP1_def
      hits_slice_def env_ok_def Extract_rank_def Array1D_SetPointer_def Array1D_Move_def
      move_to_host_def DEVICE_neq_HOST HOST_neq_0 write_back_def copy_cells_def)

text \<open>
  C2 does not hold of the code. \<^verbatim>\<open>Problem::Extract\<close> has one buffer and copies
  \<^verbatim>\<open>degrees\<close> into it: the source marks both copies as the placeholder of the template
  (\<^verbatim>\<open><TODO> extract the results from single GPU, e.g.:\<close>), and \<^verbatim>\<open>hrank_curr\<close> and
  \<^verbatim>\<open>arank_curr\<close> are never read. On the problem of one GPU, after \<open>Init\<close> and
  \<open>Reset\<close>, both rank arrays hold 1 at each of the two vertices; \<open>Extract\<close> returns
  success and the buffer holds the zeros of \<^verbatim>\<open>degrees\<close>, from the device and from the
  host alike. \<^verbatim>\<open>HITSProblem::Extract\<close> does copy the two rank arrays, but on a machine
  whose device cannot be selected it leaves by \<^verbatim>\<open>break\<close> with the status still
  \<^verbatim>\<open>cudaSuccess\<close>: the call reports success and the caller's buffers are unwritten.
\<close>

theorem Extract_single_gpu_misses_ranks:
  "num_gpus P1 = 1 \<and> data_slices P1 = Some [holder_of (slice_of g2 0)] \<and>
   GetPointer DEVICE (hrank_curr (slice_of g2 0)) = Some [Some 1, Some 1] \<and>
   GetPointer DEVICE (arank_curr (slice_of g2 0)) = Some [Some 1, Some 1] \<and>
   fst (Problem_Extract env_ok [None, None] DEVICE P1) = cudaSuccess \<and>
   snd (snd (Problem_Extract env_ok [None, None] DEVICE P1)) = [Some 0, Some 0] \<and>
   num_gpus P1_host = 1 \<and>
   data_slices P1_host =
     Some [\<lparr>h_pointer = Some [Some (host_slice_of g2 0)], d_pointer = None\<rparr>] \<and>
   GetPointer HOST (hrank_curr (host_slice_of g2 0)) = Some [Some 1, Some 1] \<and>
   GetPointer HOST (arank_curr (host_slice_of g2 0)) = Some [Some 1, Some 1] \<and>
   fst (Problem_Extract env_ok [None, None] HOST P1_host) = cudaSuccess \<and>
   snd (snd (Problem_Extract env_ok [None, None] HOST P1_host)) = [Some 0, Some 0] \<and>
   hits_num_gpus HP1 = 1 \<and> hits_data_slices HP1 = Some [Some hits_slice] \<and>
   GetPointer DEVICE (hits_hrank_curr hits_slice) = Some [Some 0, Some (1/2), Some 1] \<and>
   GetPointer DEVICE (hits_arank_curr hits_slice) = Some [Some 1, Some (3/2), Some 2] \<and>
   HITSProblem_Extract env_no_gpu [None, None, None] [None, None, None] HP1 =
     (cudaSuccess, HP1, [None, None, None], [None, None, None])"
proof -
  have r: "replicate (nodes g2) x = [x, x]" for x :: "'a option"
    by (simp add: g2_def numeral_2_eq_2)
  have n: "nodes g2 = 2" by (simp add: g2_def)
  have "\<exists>p'. Problem_Extract env_ok [None, None] DEVICE P1 =
           (cudaSuccess, p', [Some 0, Some 0] @ drop (nodes g2) [None, None])"
    by (rule Problem_Extract_DEVICE_copies[where idx = 0 and ds = "slice_of g2 0"])
       (simp_all add: P1_def env_ok_def holder_of_def slice_of_eq r, simp_all add: g2_def)
  then obtain p' where
    d: "Problem_Extract env_ok [None, None] DEVICE P1 = (cudaSuccess, p', [Some 0, Some 0])"
    by (auto simp add: n)
  have "\<exists>p'. Problem_Extract env_ok [None, None] HOST P1_host =
      (cudaSuccess, p', take (nodes g2) [Some 0, Some 0] @ drop (nodes g2) [None, None])"
    by (rule Problem_Extract_HOST_copies[where ds = "host_slice_of g2 0"])
       (simp_all add: P1_host_def host_slice_of_eq r, simp_all add: g2_def)
  then obtain p'' where
    h: "Problem_Extract env_ok [None, None] HOST P1_host = (cudaSuccess, p'', [Some 0, Some 0])"
    by (auto simp add: n)
  have dev: "GetPointer DEVICE (hrank_curr (slice_of g2 0)) = Some [Some 1, Some 1]"
    "GetPointer DEVICE (arank_curr (slice_of g2 0)) = Some [Some 1, Some 1]"
    by (simp_all add: GetPointer_DEVICE slice_of_eq r)
  have host: "GetPointer HOST (hrank_curr (host_slice_of g2 0)) = Some [Some 1, Some 1]"
    "GetPointer HOST (arank_curr (host_slice_of g2 0)) = Some [Some 1, Some 1]"
    by (simp_all add: GetPointer_HOST host_slice_of_eq r)
  have hits: "GetPointer DEVICE (hits_hrank_curr hits_slice) = Some [Some 0, Some (1/2), Some 1]"
    "GetPointer DEVICE (hits_arank_curr hits_slice) = Some [Some 1, Some (3/2), Some 2]"
    by (simp_all add: GetPointer_DEVICE hits_slice_def)
  have swallowed: "HITSProblem_Extract env_no_gpu [None, None, None] [None, None, None] HP1 =
     (cudaSuccess, HP1, [None, None, None], [None, None, None])"
    by (simp add: HITSProblem_Extract_def cudaSetDevice_gpu_def SetDevice_def HP1_def
        env_no_gpu_def env_ok_def)
  have p: "num_gpus P1 = 1" "data_slices P1 = Some [holder_of (slice_of g2 0)]"
    "num_gpus P1_host = 1"
    "data_slices P1_host =
       Some [\<lparr>h_pointer = Some [Some (host_slice_of g2 0)], d_pointer = None\<rparr>]"
    "hits_num_gpus HP1 = 1" "hits_data_slices HP1 = Some [Some hits_slice]"
    by (simp_all add: P1_def P1_host_def HP1_def)
  show ?thesis
    unfolding d h swallowed using p dev host hits by simp
qed

section \<open>Extract on several GPUs\<close>

lemma Problem_Extract_multi:
  "num_gpus p \<noteq> 1 \<Longrightarrow> org_graph p = Some g \<Longrightarrow>
   Problem_Extract env h_degrees target p = (cudaSuccess, p, h_degrees)"
  by (simp add: Problem_Extract_def)

lemma HITSProblem_Extract_multi:
  "hits_num_gpus p \<noteq> 1 \<Longrightarrow>
   HITSProblem_Extract env h_hrank h_arank p = (cudaSuccess, p, h_hrank, h_arank)"
  by (simp add: HITSProblem_Extract_def)

text \<open>
  C3 does not hold of the code: the multi-GPU branch of \<open>Extract\<close> is commented out in
  \<^verbatim>\<open>Problem\<close> and is a \<^verbatim>\<open>TODO\<close> in \<^verbatim>\<open>HITSProblem\<close>. On the graph of four vertices
  split \<open>{0, 1}\<close> to device 0 and \<open>{2, 3}\<close> to device 1, after \<open>Reset\<close>, both
  devices hold values for their two vertices; \<open>Extract\<close> returns success and leaves
  all four cells of the caller's buffer unwritten. The same holds of the older variant.
\<close>

theorem Extract_multi_gpu_copies_nothing:
  "num_gpus P2 = 2 \<and> org_graph P2 = Some g4 \<and> partition_table g4 = [0, 0, 1, 1] \<and>
   data_slices P2 = Some [holder_of (slice_of g2 0), holder_of (slice_of g2 1)] \<and>
   GetPointer DEVICE (degrees (slice_of g2 0)) = Some [Some 0, Some 0] \<and>
   GetPointer DEVICE (degrees (slice_of g2 1)) = Some [Some 0, Some 0] \<and>
   GetPointer DEVICE (hrank_curr (slice_of g2 0)) = Some [Some 1, Some 1] \<and>
   GetPointer DEVICE (hrank_curr (slice_of g2 1)) = Some [Some 1, Some 1] \<and>
   Problem_Extract env_ok [None, None, None, None] DEVICE P2 =
     (cudaSuccess, P2, [None, None, None, None]) \<and>
   HITSProblem_Extract env_ok [None, None, None] [None, None, None] HP2 =
     (cudaSuccess, HP2, [None, None, None], [None, None, None])"
proof -
  have r: "replicate (nodes g2) x = [x, x]" for x :: "'a option"
    by (simp add: g2_def numeral_2_eq_2)
  have "Problem_Extract env_ok [None, None, None, None] DEVICE P2 =
     (cudaSuccess, P2, [None, None, None, None])"
    by (rule Problem_Extract_multi[where g = g4]) (simp_all add: P2_def)
  moreover have "HITSProblem_Extract env_ok [None, None, None] [None, None, None] HP2 =
     (cudaSuccess, HP2, [None, None, None], [None, None, None])"
    by (rule HITSProblem_Extract_multi) (simp add: HP2_def)
  moreover have "GetPointer DEVICE (degrees (slice_of g2 idx)) = Some [Some 0, Some 0]"
    "GetPointer DEVICE (hrank_curr (slice_of g2 idx)) = Some [Some 1, Some 1]" for idx
    by (simp_all add: GetPointer_DEVICE slice_of_eq r)
  ultimately show ?thesis by (simp add: P2_def g4_def)
qed

section \<open>HITSProblem::Reset and its source vertex\<close>

lemma at_hits_slice_seeded:
  "0 < gpu \<Longrightarrow> hrank_seeded n p \<Longrightarrow> hrank_seeded n (snd (at_hits_slice gpu f p))"
  by (cases gpu)
     (auto simp add: hrank_seeded_def at_hits_slice_def split: option.splits list.splits prod.splits)

lemma cudaSetDevice_gpu_state: "snd (cudaSetDevice_gpu env gpu p) = p"
  by (simp add: cudaSetDevice_gpu_def SetDevice_def)

lemma copy_to_d_data_slices_slices:
  "hits_data_slices (snd (copy_to_d_data_slices env gpu p)) = hits_data_slices p"
  by (simp add: copy_to_d_data_slices_def split: option.splits)

lemma copy_seeded: "hrank_seeded n p \<Longrightarrow> hrank_seeded n (snd (copy_to_d_data_slices env gpu p))"
  by (simp add: hrank_seeded_def copy_to_d_data_slices_slices)

text \<open>The turns of the loop for the GPUs after the first leave slice 0 alone.\<close>

lemma HITS_Reset_gpu_keeps:
  assumes "0 < gpu" and "hrank_seeded n p"
  shows "hrank_seeded n (snd (HITS_Reset_gpu env m ft qs gpu p))"
  unfolding HITS_Reset_gpu_def
  by (rule GUARD_CU_seq_keeps[where P = "hrank_seeded n"])
     (simp_all add: at_hits_slice_seeded[OF assms(1)] cudaSetDevice_gpu_state copy_seeded assms(2))

lemma Memset_hrank_seeds:
  assumes "at_hits_slice 0 (on_hits_hrank_curr (MemsetKernel 1 n)) s = (cudaSuccess, s')"
  shows "hrank_seeded n s'"
  using assms
  by (auto simp add: at_hits_slice_def on_hits_hrank_curr_def MemsetKernel_def
      for_each_device_def hrank_seeded_def apply_first_def neq_Nil_conv map_replicate_const
      split: option.splits prod.splits if_splits)

lemma other_arrays_keep_seeded:
  assumes "hrank_seeded n p"
  shows "hrank_seeded n (snd (at_hits_slice 0 (on_hits_arank_curr f) p))"
    and "hrank_seeded n (snd (at_hits_slice 0 (on_hits_hrank_next f) p))"
    and "hrank_seeded n (snd (at_hits_slice 0 (on_hits_arank_next f) p))"
    and "hrank_seeded n (snd (at_hits_slice 0 (on_rank_mag f) p))"
  using assms
  by (auto simp add: at_hits_slice_def on_hits_arank_curr_def on_hits_hrank_next_def
      on_hits_arank_next_def on_rank_mag_def hrank_seeded_def
      split: option.splits prod.splits list.splits)

text \<open>The turn for GPU 0, when it succeeds, has filled \<^verbatim>\<open>hrank_curr\<close> of slice 0 with 1.\<close>

lemma HITS_Reset_gpu_0_seeds:
  assumes "HITS_Reset_gpu env n ft qs 0 p = (cudaSuccess, p')"
  shows "hrank_seeded n p'"
proof -
  let ?pre = "[cudaSetDevice_gpu env 0,
        at_hits_slice 0 (\<lambda>ds. (cudaSuccess, snd (BaseDataSlice_Reset ft qs ds))),
        at_hits_slice 0 (on_hits_hrank_curr (allocate_if_null env n)),
        at_hits_slice 0 (on_hits_arank_curr (allocate_if_null env n)),
        at_hits_slice 0 (on_hits_hrank_next (allocate_if_null env n)),
        at_hits_slice 0 (on_hits_arank_next (allocate_if_null env n)),
        at_hits_slice 0 (on_rank_mag (allocate_if_null env 1))]"
  let ?post = "[at_hits_slice 0 (on_hits_arank_curr (MemsetKernel 1 n)),
        at_hits_slice 0 (on_hits_hrank_next (MemsetKernel 0 n)),
        at_hits_slice 0 (on_hits_arank_next (MemsetKernel 0 n)),
        at_hits_slice 0 (on_rank_mag (MemsetKernel 0 1)),
        copy_to_d_data_slices env 0]"
  have "GUARD_CU_seq (?pre @ at_hits_slice 0 (on_hits_hrank_curr (MemsetKernel 1 n)) # ?post) p
          = (cudaSuccess, p')"
    using assms by (simp add: HITS_Reset_gpu_def)
  from GUARD_CU_seq_split_success[OF this] obtain s1 s2 where
    m: "at_hits_slice 0 (on_hits_hrank_curr (MemsetKernel 1 n)) s1 = (cudaSuccess, s2)" and
    p': "p' = snd (GUARD_CU_seq ?post s2)" by blast
  have "hrank_seeded n (snd (GUARD_CU_seq ?post s2))"
    by (rule GUARD_CU_seq_keeps[where P = "hrank_seeded n"])
       (simp_all add: other_arrays_keep_seeded copy_seeded Memset_hrank_seeds[OF m])
  then show ?thesis using p' by simp
qed

lemma Reset_loop_seeds:
  assumes "GUARD_CU_seq (map (HITS_Reset_gpu env n ft qs) [0..<N]) p = (cudaSuccess, p')"
    and "0 < N"
  shows "hrank_seeded n p'"
proof -
  have up: "[0..<N] = 0 # [1..<N]" using assms(2) by (simp add: upt_conv_Cons)
  from assms(1) obtain p1 where
    first: "HITS_Reset_gpu env n ft qs 0 p = (cudaSuccess, p1)" and
    rest: "GUARD_CU_seq (map (HITS_Reset_gpu env n ft qs) [1..<N]) p1 = (cudaSuccess, p')"
    unfolding up by (auto simp add: GUARD_CU_seq_Cons_success simp del: GUARD_CU_seq.simps)
  have "hrank_seeded n (snd (GUARD_CU_seq (map (HITS_Reset_gpu env n ft qs) [1..<N]) p1))"
    by (rule GUARD_CU_seq_keeps[where P = "hrank_seeded n"])
       (auto simp add: HITS_Reset_gpu_keeps HITS_Reset_gpu_0_seeds[OF first])
  then show ?thesis using rest by simp
qed

text \<open>Writing 1 into a cell that holds 1 changes nothing.\<close>

lemma seed_write_same:
  assumes "hrank_seeded n p" and "0 \<le> src" and "src < int n"
  shows "at_hits_slice 0 (on_hits_hrank_curr (cudaMemcpy_cell env src 1)) p =
           (if memcpy_ok env then cudaSuccess else TransferFailure, p)"
proof -
  from assms(1) obtain ds rest cells where
    sl: "hits_data_slices p = Some (Some ds # rest)" and
    dp: "d_pointer (hits_hrank_curr ds) = Some cells" and
    n: "n \<le> length cells" and tk: "take n cells = replicate n (Some 1)"
    using assms(2,3) by (auto simp add: hrank_seeded_def split: option.splits list.splits)
  have i: "nat src < n" using assms(2,3) by simp
  have "cells ! nat src = take n cells ! nat src" using i by simp
  also have "\<dots> = Some 1" using i tk by simp
  finally have same: "cells[nat src := Some 1] = cells" by (metis list_update_id)
  have arr: "(hits_hrank_curr ds)\<lparr>d_pointer := Some cells\<rparr> = hits_hrank_curr ds"
    using dp by (cases "hits_hrank_curr ds") simp
  have sli: "ds\<lparr>hits_hrank_curr := hits_hrank_curr ds\<rparr> = ds" by (cases ds) simp
  have pp: "p\<lparr>hits_data_slices := Some (Some ds # rest)\<rparr> = p" using sl by (cases p) simp
  show ?thesis
    using sl dp n i assms(2) same arr sli pp
    by (simp add: at_hits_slice_def on_hits_hrank_curr_def cudaMemcpy_cell_def)
qed

text \<open>
  C8. In the older variant, with at least one GPU, \<open>Reset\<close> does the same for any two
  source vertices that are valid vertex indices: it returns the same status and leaves
  the same problem, hence the same \<^verbatim>\<open>hrank_curr\<close>, \<^verbatim>\<open>arank_curr\<close>, \<^verbatim>\<open>hrank_next\<close>,
  \<^verbatim>\<open>arank_next\<close> and \<^verbatim>\<open>rank_mag\<close>. The write of 1 at \<^verbatim>\<open>src\<close> falls on a cell that the
  fill has already set to 1.
\<close>

theorem Reset_independent_of_src:
  assumes "0 < hits_num_gpus p"
    and "0 \<le> src1" "src1 < int (hits_nodes p)"
    and "0 \<le> src2" "src2 < int (hits_nodes p)"
  shows "HITSProblem_Reset env src1 delta frontier_type queue_sizing p =
         HITSProblem_Reset env src2 delta frontier_type queue_sizing p"
proof -
  obtain r p' where
    loop: "GUARD_CU_seq (map (HITS_Reset_gpu env (hits_nodes p) frontier_type queue_sizing)
             [0..<hits_num_gpus p]) p = (r, p')"
    by (cases "GUARD_CU_seq (map (HITS_Reset_gpu env (hits_nodes p) frontier_type queue_sizing)
             [0..<hits_num_gpus p]) p")
  show ?thesis
  proof (cases "r = cudaSuccess")
    case False
    then show ?thesis using loop by (simp add: HITSProblem_Reset_def GUARD_CU_seq_append)
  next
    case True
    then have "hrank_seeded (hits_nodes p) p'"
      using loop Reset_loop_seeds assms(1) by blast
    then show ?thesis
      using loop True assms(2-5)
      by (simp add: HITSProblem_Reset_def GUARD_CU_seq_append seed_write_same)
  qed
qed

lemmas on_hits_defs = on_hits_hrank_curr_def on_hits_arank_curr_def on_hits_hrank_next_def
  on_hits_arank_next_def on_rank_mag_def

lemma HITSProblem_Reset_HP1:
  "fst (HITSProblem_Reset env_ok 0 (1/2) 0 1 HP1) = cudaSuccess \<and>
   hits_data_slices (snd (HITSProblem_Reset env_ok 0 (1/2) 0 1 HP1)) =
     Some [Some \<lparr>hits_hrank_curr = \<lparr>h_pointer = None, d_pointer = Some [Some 1, Some 1, Some 1]\<rparr>,
                 hits_arank_curr = \<lparr>h_pointer = None, d_pointer = Some [Some 1, Some 1, Some 1]\<rparr>,
                 hits_hrank_next = \<lparr>h_pointer = None, d_pointer = Some [Some 0, Some 0, Some 0]\<rparr>,
                 hits_arank_next = \<lparr>h_pointer = None, d_pointer = Some [Some 0, Some 0, Some 0]\<rparr>,
                 rank_mag = \<lparr>h_pointer = None, d_pointer = Some [Some 0]\<rparr>\<rparr>]"
  by (simp add: HITSProblem_Reset_def HITS_Reset_gpu_def HP1_def hits_slice_def env_ok_def
      cudaSetDevice_gpu_def SetDevice_def at_hits_slice_def BaseDataSlice_Reset_def
      on_hits_defs allocate_if_null_def if_then_def GetPointer_DEVICE MemsetKernel_def
      for_each_device_def apply_first_def copy_to_d_data_slices_def cudaMemcpy_cell_def
      upt_rec)

text \<open>
  On the problem of three vertices, the reset from source 0 and the reset from source 2
  agree, and succeed.
\<close>

theorem Reset_independent_of_src_witness:
  "0 < hits_num_gpus HP1 \<and> (2::int) < int (hits_nodes HP1) \<and>
   fst (HITSProblem_Reset env_ok 0 (1/2) 0 1 HP1) = cudaSuccess \<and>
   HITSProblem_Reset env_ok 0 (1/2) 0 1 HP1 = HITSProblem_Reset env_ok 2 (1/2) 0 1 HP1"
proof -
  have h: "0 < hits_num_gpus HP1" "(0::int) < int (hits_nodes HP1)"
    "(2::int) < int (hits_nodes HP1)"
    by (simp_all add: HP1_def)
  show ?thesis
    using Reset_independent_of_src[of HP1 0 2 env_ok "1/2" 0 1] h HITSProblem_Reset_HP1
    by simp
qed

end
